theory Spec2Isabelle
  imports Complex_Main
begin

section \<open>JavaScript numbers\<close>

text \<open>
  A JavaScript number is NaN, an infinity or a real. The arithmetic is that of the
  language on these values: NaN is absorbing, opposite infinities add to NaN, an infinity
  times zero is NaN, and every comparison with NaN is false. Rounding of the finite
  values and the sign of zero are not modelled; the code divides by the constant
  1048576 only.
\<close>

datatype jsnum = NaN | NegInf | Num real | PosInf

text \<open>The product of an infinity (positive when the flag is set) and a real.\<close>

definition inf_times :: "bool \<Rightarrow> real \<Rightarrow> jsnum" where
  "inf_times positive b =
    (if b = 0 then NaN else if (b > 0) = positive then PosInf else NegInf)"

instantiation jsnum :: "{plus, uminus, minus, times, inverse, ord}"
begin

fun plus_jsnum :: "jsnum \<Rightarrow> jsnum \<Rightarrow> jsnum" where
  "NaN + b = NaN"
| "a + NaN = NaN"
| "Num a + Num b = Num (a + b)"
| "PosInf + NegInf = NaN"
| "NegInf + PosInf = NaN"
| "PosInf + b = PosInf"
| "a + PosInf = PosInf"
| "NegInf + b = NegInf"
| "a + NegInf = NegInf"

fun uminus_jsnum :: "jsnum \<Rightarrow> jsnum" where
  "- NaN = NaN"
| "- NegInf = PosInf"
| "- Num a = Num (- a)"
| "- PosInf = NegInf"

definition minus_jsnum :: "jsnum \<Rightarrow> jsnum \<Rightarrow> jsnum" where
  "minus_jsnum a b = a + (- b)"

fun times_jsnum :: "jsnum \<Rightarrow> jsnum \<Rightarrow> jsnum" where
  "NaN * b = NaN"
| "a * NaN = NaN"
| "Num a * Num b = Num (a * b)"
| "PosInf * Num b = inf_times True b"
| "NegInf * Num b = inf_times False b"
| "Num a * PosInf = inf_times True a"
| "Num a * NegInf = inf_times False a"
| "PosInf * PosInf = PosInf"
| "NegInf * NegInf = PosInf"
| "PosInf * NegInf = NegInf"
| "NegInf * PosInf = NegInf"

fun divide_jsnum :: "jsnum \<Rightarrow> jsnum \<Rightarrow> jsnum" where
  "divide_jsnum NaN b = NaN"
| "divide_jsnum a NaN = NaN"
| "divide_jsnum (Num a) (Num b) =
     (if b = 0 then (if a = 0 then NaN else if a > 0 then PosInf else NegInf)
      else Num (a / b))"
| "divide_jsnum (Num a) PosInf = Num 0"
| "divide_jsnum (Num a) NegInf = Num 0"
| "divide_jsnum PosInf (Num b) = (if b \<ge> 0 then PosInf else NegInf)"
| "divide_jsnum NegInf (Num b) = (if b \<ge> 0 then NegInf else PosInf)"
| "divide_jsnum PosInf b = NaN"
| "divide_jsnum NegInf b = NaN"

definition inverse_jsnum :: "jsnum \<Rightarrow> jsnum" where
  "inverse_jsnum a = divide (Num 1) a"

fun less_eq_jsnum :: "jsnum \<Rightarrow> jsnum \<Rightarrow> bool" where
  "NaN \<le> b = False"
| "a \<le> NaN = False"
| "Num a \<le> Num b = (a \<le> b)"
| "NegInf \<le> b = True"
| "a \<le> PosInf = True"
| "PosInf \<le> b = False"
| "a \<le> NegInf = False"

fun less_jsnum :: "jsnum \<Rightarrow> jsnum \<Rightarrow> bool" where
  "NaN < b = False"
| "a < NaN = False"
| "Num a < Num b = (a < b)"
| "NegInf < NegInf = False"
| "PosInf < b = False"
| "a < NegInf = False"
| "NegInf < b = True"
| "a < PosInf = True"

instance ..

end

text \<open>\<open>Math.min\<close> of two numbers: NaN when either is NaN.\<close>

definition Math_min :: "jsnum \<Rightarrow> jsnum \<Rightarrow> jsnum" where
  "Math_min a b = (if a = NaN \<or> b = NaN then NaN else if a \<le> b then a else b)"

section \<open>Contextual risk scorer\<close>

text \<open>
  The scorer is pure arithmetic over a metrics snapshot. Every numeric field is a
  JavaScript number, NaN and the infinities included; every constant of the source (tier
  bounds, weights, multipliers) is written as the source writes it. An optional field
  \<open>f?: T\<close> is a \<open>T option\<close>, with \<open>None\<close> for \<open>undefined\<close>.

  The repository holds two scorers under the same module path. The simplified one reads
  three fields only; the enhanced one reads those three and eight more. TypeScript types
  are structural, so the enhanced snapshot is an extension of the simplified one, and the
  simplified \<open>getRiskLevel\<close> accepts any extension of its three fields.
\<close>

record SimpleMetrics =
  requestCount :: jsnum
  domainRepScore :: jsnum
  obfuscationDetected :: bool

record AnomalyMetrics = SimpleMetrics +
  dataExfilSize :: jsnum
  uploadFrequency :: "jsnum option"
  dangerousFunctionCount :: "jsnum option"
  cookieAccessDetected :: "bool option"
  isFirstVisit :: "bool option"
  userInteractionOccurred :: "bool option"
  timeOfDay :: "jsnum option"
  domainAge :: "jsnum option"

record ThreatContext =
  behavioralScore :: jsnum
  temporalScore :: jsnum
  structuralScore :: jsnum
  combinedScore :: jsnum
  confidence :: real
  threatVector :: "string list"

subsection \<open>JavaScript truthiness of optional fields\<close>

text \<open>
  \<open>x && x > k\<close> on an optional number: \<open>undefined\<close>, \<open>0\<close> and NaN are falsy.
\<close>

definition truthy_num :: "jsnum option \<Rightarrow> bool" where
  "truthy_num x = (case x of None \<Rightarrow> False | Some v \<Rightarrow> v \<noteq> NaN \<and> v \<noteq> Num 0)"

text \<open>An optional boolean used as a condition: only \<open>true\<close> is truthy.\<close>

definition truthy_bool :: "bool option \<Rightarrow> bool" where
  "truthy_bool x = (case x of None \<Rightarrow> False | Some b \<Rightarrow> b)"

text \<open>\<open>x && x > k\<close> as a whole.\<close>

definition num_above :: "jsnum option \<Rightarrow> jsnum \<Rightarrow> bool" where
  "num_above x k = (truthy_num x \<and> (case x of None \<Rightarrow> False | Some v \<Rightarrow> v > k))"

subsection \<open>Sub-scores (anomaly-scoring.ts, enhanced model)\<close>

definition calculateBehavioralScore :: "AnomalyMetrics \<Rightarrow> jsnum" where
  "calculateBehavioralScore metrics =
    (let score = Num 0;
         score = (if requestCount metrics > Num 50 then score + Num 30
                  else if requestCount metrics > Num 20 then score + Num 20
                  else if requestCount metrics > Num 10 then score + Num 10
                  else score);
         exfilMB = dataExfilSize metrics / Num (1024 * 1024);
         score = (if exfilMB > Num 10 then score + Num 25
                  else if exfilMB > Num 5 then score + Num 18
                  else if exfilMB > Num 1 then score + Num 10
                  else score);
         score = (if num_above (uploadFrequency metrics) (Num 10) then score + Num 20
                  else if num_above (uploadFrequency metrics) (Num 5) then score + Num 12
                  else score);
         score = score + (Num 10 - domainRepScore metrics) * Num 2.5
     in Math_min score (Num 100))"

definition calculateTemporalScore :: "AnomalyMetrics \<Rightarrow> jsnum" where
  "calculateTemporalScore metrics =
    (let score = Num 0;
         score = (if truthy_bool (isFirstVisit metrics)
                  then (let s = (if requestCount metrics > Num 20 then score + Num 25 else score)
                        in (if dataExfilSize metrics > Num (1024 * 1024) then s + Num 20 else s))
                  else score);
         score = (if \<not> truthy_bool (userInteractionOccurred metrics)
                  then (if requestCount metrics > Num 5 then score + Num 30
                        else if requestCount metrics > Num 0 then score + Num 15
                        else score)
                  else score);
         score = (case timeOfDay metrics of
                    None \<Rightarrow> score
                  | Some t \<Rightarrow> (if t \<ge> Num 2 \<and> t \<le> Num 5 then score + Num 20 else score));
         score = (case domainAge metrics of
                    None \<Rightarrow> score
                  | Some a \<Rightarrow> (if a = Num 0 then score + Num 30
                              else if a < Num 7 then score + Num 20
                              else if a < Num 30 then score + Num 10
                              else score))
     in Math_min score (Num 100))"

definition calculateStructuralScore :: "AnomalyMetrics \<Rightarrow> jsnum" where
  "calculateStructuralScore metrics =
    (let score = Num 0;
         score = (if obfuscationDetected metrics then score + Num 40 else score);
         score = (case dangerousFunctionCount metrics of
                    None \<Rightarrow> score
                  | Some c \<Rightarrow> (if c > Num 10 then score + Num 30
                              else if c > Num 5 then score + Num 20
                              else if c > Num 0 then score + Num 10
                              else score));
         score = (if truthy_bool (cookieAccessDetected metrics) then score + Num 30 else score)
     in Math_min score (Num 100))"

subsection \<open>Threat vectors\<close>

text \<open>\<open>vectors.push\<close> appends; the tags come out in the order of the tests.\<close>

definition identifyThreatVectors :: "AnomalyMetrics \<Rightarrow> string list" where
  "identifyThreatVectors metrics =
    (let vectors = [];
         vectors = (if dataExfilSize metrics > Num (5 * 1024 * 1024)
                    then vectors @ [''DATA_EXFILTRATION''] else vectors);
         vectors = (if obfuscationDetected metrics
                        \<and> num_above (dangerousFunctionCount metrics) (Num 5)
                    then vectors @ [''OBFUSCATED_MALWARE''] else vectors);
         vectors = (if truthy_bool (cookieAccessDetected metrics)
                        \<and> dataExfilSize metrics > Num 0
                    then vectors @ [''SESSION_HIJACKING''] else vectors);
         vectors = (if \<not> truthy_bool (userInteractionOccurred metrics)
                        \<and> requestCount metrics > Num 10
                    then vectors @ [''BACKGROUND_BEACON''] else vectors);
         vectors = (if truthy_bool (isFirstVisit metrics)
                        \<and> (requestCount metrics > Num 20
                            \<or> dataExfilSize metrics > Num (1024 * 1024))
                    then vectors @ [''ZERO_DAY_ATTACK''] else vectors);
         vectors = (if num_above (uploadFrequency metrics) (Num 15)
                    then vectors @ [''RAPID_EXFIL''] else vectors)
     in vectors)"

subsection \<open>Confidence\<close>

text \<open>
  The table \<open>checks\<close> pairs each field's value with its weight; \<open>forEach\<close> adds every
  weight to \<open>availablePoints\<close> and the weights of the defined values to \<open>dataPoints\<close>.
  Only definedness of the value is read, so an entry is (defined, weight); a NaN is a
  defined value. The four non-optional fields are always defined. The weights are
  constants, so the two sums and the rounded percentage are finite numbers.
\<close>

definition checks :: "AnomalyMetrics \<Rightarrow> (bool \<times> real) list" where
  "checks metrics =
    [(True, 1),
     (True, 1),
     (True, 1),
     (uploadFrequency metrics \<noteq> None, 0.8),
     (True, 1),
     (dangerousFunctionCount metrics \<noteq> None, 0.8),
     (cookieAccessDetected metrics \<noteq> None, 0.8),
     (isFirstVisit metrics \<noteq> None, 0.6),
     (userInteractionOccurred metrics \<noteq> None, 0.6),
     (timeOfDay metrics \<noteq> None, 0.4),
     (domainAge metrics \<noteq> None, 0.7)]"

fun forEach_check :: "(bool \<times> real) list \<Rightarrow> real \<times> real \<Rightarrow> real \<times> real" where
  "forEach_check [] acc = acc"
| "forEach_check ((defined, weight) # cs) (dataPoints, availablePoints) =
     forEach_check cs
       (if defined then dataPoints + weight else dataPoints, availablePoints + weight)"

text \<open>\<open>Math.round\<close> rounds to the nearest integer, halves upwards, as \<open>round\<close> does.\<close>

definition calculateConfidence :: "AnomalyMetrics \<Rightarrow> real" where
  "calculateConfidence metrics =
    (case forEach_check (checks metrics) (0, 0) of
       (dataPoints, availablePoints) \<Rightarrow>
         of_int (round ((dataPoints / availablePoints) * 100)))"

subsection \<open>Combination and risk level\<close>

definition analyzeContext :: "AnomalyMetrics \<Rightarrow> ThreatContext" where
  "analyzeContext metrics =
    (let behavioral = calculateBehavioralScore metrics;
         temporal = calculateTemporalScore metrics;
         structural = calculateStructuralScore metrics;
         combined = behavioral * Num 0.40 + temporal * Num 0.30 + structural * Num 0.30;
         combined = (if obfuscationDetected metrics
                         \<and> dataExfilSize metrics > Num (1024 * 1024)
                     then combined * Num 1.3 else combined);
         combined = (if truthy_bool (isFirstVisit metrics)
                         \<and> \<not> truthy_bool (userInteractionOccurred metrics)
                         \<and> requestCount metrics > Num 10
                     then combined * Num 1.25 else combined);
         combined = (if truthy_bool (cookieAccessDetected metrics)
                         \<and> num_above (uploadFrequency metrics) (Num 10)
                     then combined * Num 1.4 else combined);
         combined = (if domainRepScore metrics < Num 3 \<and> obfuscationDetected metrics
                         \<and> dataExfilSize metrics > Num 0
                     then combined * Num 1.35 else combined);
         combined = Math_min combined (Num 100)
     in \<lparr>behavioralScore = behavioral,
         temporalScore = temporal,
         structuralScore = structural,
         combinedScore = combined,
         confidence = calculateConfidence metrics,
         threatVector = identifyThreatVectors metrics\<rparr>)"

definition getRiskLevel :: "AnomalyMetrics \<Rightarrow> string" where
  "getRiskLevel metrics =
    (let context = analyzeContext metrics
     in if combinedScore context \<ge> Num 75 then ''CRITICAL''
        else if combinedScore context \<ge> Num 50 then ''HIGH''
        else if combinedScore context \<ge> Num 25 then ''MEDIUM''
        else ''LOW'')"

subsection \<open>The simplified scorer (the anomaly-scoring.ts bundled with log-storage.ts)\<close>

text \<open>
  The three local constants of the function, each as a function of the metrics, and the
  function itself. It reads \<open>requestCount\<close>, \<open>domainRepScore\<close> and
  \<open>obfuscationDetected\<close> and nothing else of its argument.
\<close>

definition baseScore :: "'a SimpleMetrics_scheme \<Rightarrow> jsnum" where
  "baseScore metrics = (requestCount metrics * Num 2) + (domainRepScore metrics * Num 10)"

definition obfuscationMultiplier :: "'a SimpleMetrics_scheme \<Rightarrow> jsnum" where
  "obfuscationMultiplier metrics = (if obfuscationDetected metrics then Num 2 else Num 1)"

definition finalScore :: "'a SimpleMetrics_scheme \<Rightarrow> jsnum" where
  "finalScore metrics = baseScore metrics * obfuscationMultiplier metrics"

definition getRiskLevel_simple :: "'a SimpleMetrics_scheme \<Rightarrow> string" where
  "getRiskLevel_simple metrics =
    (if finalScore metrics > Num 100 then ''CRITICAL''
     else if finalScore metrics > Num 50 then ''HIGH''
     else ''LOW'')"

section \<open>JavaScript values, strings and platform functions\<close>

text \<open>
  Values the code handles without a static type: syntax-tree nodes, and the object
  literals handed to \<open>saveLog\<close>. An object is its list of own properties in insertion
  order, with distinct keys; an array is its list of elements.
\<close>

datatype jsval =
    JUndef
  | JNull
  | JBool bool
  | JNum real
  | JStr string
  | JArr "jsval list"
  | JObj "(string \<times> jsval) list"

text \<open>
  Reading a property that the code reads (\<open>type\<close>, \<open>loc\<close>, \<open>callee\<close>, ...): the stored
  value on an object that has it, \<open>undefined\<close> on any other object, array or primitive.
  Reading a property of \<open>null\<close> or \<open>undefined\<close> throws; the callers below test for
  that before they call \<open>get\<close>.
\<close>

fun get :: "jsval \<Rightarrow> string \<Rightarrow> jsval" where
  "get (JObj kvs) k = (case map_of kvs k of None \<Rightarrow> JUndef | Some v \<Rightarrow> v)"
| "get _ k = JUndef"

fun truthy :: "jsval \<Rightarrow> bool" where
  "truthy JUndef = False"
| "truthy JNull = False"
| "truthy (JBool b) = b"
| "truthy (JNum n) = (n \<noteq> 0)"
| "truthy (JStr s) = (s \<noteq> [])"
| "truthy (JArr xs) = True"
| "truthy (JObj kvs) = True"

fun nullish :: "jsval \<Rightarrow> bool" where
  "nullish JUndef = True"
| "nullish JNull = True"
| "nullish _ = False"

text \<open>
  \<open>toLowerCase\<close> on the ASCII letters. The strings it is compared with
  (\<open>content-length\<close>, the parameter names of the tag patterns) hold no letter that a
  character outside ASCII folds to.
\<close>

definition lower_char :: "char \<Rightarrow> char" where
  "lower_char c =
    (let n = (of_char c :: nat)
     in if 65 \<le> n \<and> n \<le> 90 then char_of (n + 32) else c)"

definition toLowerCase :: "string \<Rightarrow> string" where
  "toLowerCase s = map lower_char s"

definition startsWith :: "string \<Rightarrow> string \<Rightarrow> bool" where
  "startsWith s p = (take (length p) s = p)"

text \<open>
  What the host gives and the core does not implement: the URL parser
  (\<open>new URL(u).hostname\<close>, \<open>None\<close> when it throws), \<open>parseInt\<close> (\<open>None\<close> for NaN)
  and the conversion of a number to a string inside a template literal.
\<close>

record platform =
  url_hostname :: "string \<Rightarrow> string option"
  parseInt :: "string \<Rightarrow> real option"
  numToString :: "real \<Rightarrow> string"

section \<open>Traffic window aggregator (network-monitor, both variants)\<close>

subsection \<open>The tag-rewrite patterns\<close>

text \<open>
  Each pattern is \<open>/(\?|&)KEY=([^&]+)/i\<close>. \<open>match_here\<close> matches it at the head of a
  string: a separator, the key and \<open>=\<close> without regard to case, then the longest
  non-empty run of characters other than \<open>&\<close>. The result is the matched text
  (\<open>match[0]\<close>) and the second group (\<open>match[2]\<close>). \<open>String.match\<close> returns the leftmost
  match, so \<open>regex_search\<close> tries every start position from the left.
\<close>

definition ci_prefix :: "string \<Rightarrow> string \<Rightarrow> bool" where
  "ci_prefix p s =
    (length p \<le> length s \<and> toLowerCase (take (length p) s) = toLowerCase p)"

definition match_here :: "string \<Rightarrow> string \<Rightarrow> (string \<times> string) option" where
  "match_here key s =
    (case s of
       [] \<Rightarrow> None
     | c # rest \<Rightarrow>
        if (c = CHR ''?'' \<or> c = CHR ''&'') \<and> ci_prefix (key @ ''='') rest
        then (let n = length key + 1;
                  v = takeWhile (\<lambda>x. x \<noteq> CHR ''&'') (drop n rest)
              in if v = [] then None else Some (c # take n rest @ v, v))
        else None)"

fun regex_search :: "string \<Rightarrow> string \<Rightarrow> (string \<times> string) option" where
  "regex_search key [] = None"
| "regex_search key (c # rest) =
    (case match_here key (c # rest) of
       Some r \<Rightarrow> Some r
     | None \<Rightarrow> regex_search key rest)"

definition AFFILIATE_PATTERNS :: "string list" where
  "AFFILIATE_PATTERNS = [''affiliate_id'', ''tag'', ''partner_ref'', ''ref'']"

subsection \<open>Window state and requests\<close>

text \<open>
  \<open>hostUploadBytes\<close> is a JavaScript \<open>Map\<close>: keys in insertion order, \<open>set\<close> on a key
  already there replaces its value in place. The \<open>timestamp\<close> field of a log entry is
  the wall clock and is left out of the entries.
\<close>

type_synonym window = "(string \<times> real) list"

fun map_set :: "string \<Rightarrow> real \<Rightarrow> window \<Rightarrow> window" where
  "map_set k v [] = [(k, v)]"
| "map_set k v ((k', v') # m) = (if k' = k then (k, v) # m else (k', v') # map_set k v m)"

record HttpHeader =
  name :: string
  val :: "string option"

record RequestDetails =
  url :: string
  requestHeaders :: "HttpHeader list"

text \<open>\<open>parseInt(undefined)\<close> is NaN.\<close>

definition uploadedBytes :: "platform \<Rightarrow> RequestDetails \<Rightarrow> real option" where
  "uploadedBytes P details =
    (case find (\<lambda>h. toLowerCase (name h) = ''content-length'') (requestHeaders details) of
       None \<Rightarrow> Some 0
     | Some contentLengthHeader \<Rightarrow>
         (case val contentLengthHeader of None \<Rightarrow> None | Some s \<Rightarrow> parseInt P s))"

text \<open>Step 1 of the listener. A comparison with NaN is false.\<close>

definition track_upload :: "string \<Rightarrow> real option \<Rightarrow> window \<Rightarrow> window" where
  "track_upload destinationHost bytes w =
    (case bytes of
       None \<Rightarrow> w
     | Some b \<Rightarrow>
         if b > 0
         then (let currentBytes = (case map_of w destinationHost of None \<Rightarrow> 0 | Some c \<Rightarrow> c)
               in map_set destinationHost (currentBytes + b) w)
         else w)"

definition anomaly_entry :: "string \<Rightarrow> string \<Rightarrow> string \<Rightarrow> string \<Rightarrow> string \<Rightarrow> jsval" where
  "anomaly_entry severity u destinationHost m0 m2 =
    JObj [(''type'', JStr ''network_anomaly''),
          (''detection_source'', JStr ''webRequest_url''),
          (''url'', JStr u),
          (''destination_host'', JStr destinationHost),
          (''severity'', JStr severity),
          (''details'', JStr (''Affiliate tag detected: '' @ m0)),
          (''rewritten_value'', JStr m2)]"

text \<open>Step 2 of the listener: the loop over the patterns, with its \<open>break\<close>.\<close>

fun check_patterns :: "string list \<Rightarrow> string \<Rightarrow> string \<Rightarrow> string \<Rightarrow> jsval list" where
  "check_patterns [] severity u destinationHost = []"
| "check_patterns (pattern # ps) severity u destinationHost =
    (case regex_search pattern u of
       Some (m0, m2) \<Rightarrow> [anomaly_entry severity u destinationHost m0 m2]
     | None \<Rightarrow> check_patterns ps severity u destinationHost)"

text \<open>
  The \<open>onBeforeSendHeaders\<close> listener. It returns what it hands back to the browser
  (\<open>None\<close> for \<open>undefined\<close>), the window and the entries given to \<open>saveLog\<close>. The
  JavaScript variant returns nothing for an extension-internal request and logs with
  severity \<open>high\<close>; the TypeScript variant returns the headers and logs \<open>HIGH\<close>.
\<close>

definition listener_js ::
  "platform \<Rightarrow> RequestDetails \<Rightarrow> window \<Rightarrow> HttpHeader list option \<times> window \<times> jsval list" where
  "listener_js P details w =
    (if startsWith (url details) ''chrome-extension://'' then (None, w, [])
     else case url_hostname P (url details) of
       None \<Rightarrow> (Some (requestHeaders details), w, [])
     | Some destinationHost \<Rightarrow>
         (Some (requestHeaders details),
          track_upload destinationHost (uploadedBytes P details) w,
          check_patterns AFFILIATE_PATTERNS ''high'' (url details) destinationHost))"

definition listener_ts ::
  "platform \<Rightarrow> RequestDetails \<Rightarrow> window \<Rightarrow> HttpHeader list option \<times> window \<times> jsval list" where
  "listener_ts P details w =
    (if startsWith (url details) ''chrome-extension://''
     then (Some (requestHeaders details), w, [])
     else case url_hostname P (url details) of
       None \<Rightarrow> (Some (requestHeaders details), w, [])
     | Some destinationHost \<Rightarrow>
         (Some (requestHeaders details),
          track_upload destinationHost (uploadedBytes P details) w,
          check_patterns AFFILIATE_PATTERNS ''HIGH'' (url details) destinationHost))"

subsection \<open>The periodic flush\<close>

definition statistic_entry :: "platform \<Rightarrow> string \<Rightarrow> string \<Rightarrow> real \<Rightarrow> jsval" where
  "statistic_entry P severity host bytes =
    JObj [(''type'', JStr ''network_statistic_upload''),
          (''detection_source'', JStr ''upload_byte_counter''),
          (''severity'', JStr severity),
          (''details'', JStr (''Total bytes uploaded to '' @ host @ '' in the last 5s: ''
                              @ numToString P bytes)),
          (''host'', JStr host),
          (''bytes_uploaded'', JNum bytes)]"

text \<open>The JavaScript variant: severity from a fixed threshold of 5 MiB.\<close>

definition logAndResetUploadBytes_js :: "platform \<Rightarrow> window \<Rightarrow> window \<times> jsval list" where
  "logAndResetUploadBytes_js P w =
    (if length w = 0 then (w, [])
     else ([],
           map (\<lambda>(host, bytes).
                  let threshold = 5 * 1024 * 1024;
                      severity = (if bytes > threshold then ''warning'' else ''info'')
                  in statistic_entry P severity host bytes) w))"

text \<open>
  The TypeScript variant: severity from the imported \<open>getRiskLevel\<close>. Two modules of the
  repository answer to the imported path, so the scorer is an argument.
\<close>

definition scorer_input :: "real \<Rightarrow> AnomalyMetrics" where
  "scorer_input bytes =
    \<lparr>requestCount = Num 0, domainRepScore = Num 5, obfuscationDetected = False,
     dataExfilSize = Num bytes, uploadFrequency = None, dangerousFunctionCount = None,
     cookieAccessDetected = None, isFirstVisit = None, userInteractionOccurred = None,
     timeOfDay = None, domainAge = None\<rparr>"

definition logAndResetUploadBytes_ts ::
  "(AnomalyMetrics \<Rightarrow> string) \<Rightarrow> platform \<Rightarrow> window \<Rightarrow> window \<times> jsval list" where
  "logAndResetUploadBytes_ts riskLevel P w =
    (if length w = 0 then (w, [])
     else ([],
           map (\<lambda>(host, bytes).
                  let finalSeverity = riskLevel (scorer_input bytes)
                  in statistic_entry P finalSeverity host bytes) w))"

section \<open>Syntax tree analyzer (both variants of the script analyzer)\<close>

definition DANGEROUS_CALLS :: "string list" where
  "DANGEROUS_CALLS = [''eval'', ''Function'', ''setTimeout'', ''setInterval'', ''atob'', ''btoa'']"

definition STRING_MANIPULATORS :: "string list" where
  "STRING_MANIPULATORS = [''fromCharCode'', ''charCodeAt'', ''substr'', ''substring'', ''replace'']"

text \<open>\<open>LIST.includes(x)\<close> on a list of strings: only a string equal to an element is found.\<close>

fun list_includes :: "string list \<Rightarrow> jsval \<Rightarrow> bool" where
  "list_includes xs (JStr s) = (s \<in> set xs)"
| "list_includes xs _ = False"

text \<open>
  A value inside a template literal. The analyzer only interpolates values that passed
  \<open>includes\<close>, which are strings.
\<close>

fun template :: "jsval \<Rightarrow> string" where
  "template (JStr s) = s"
| "template _ = []"

text \<open>
  The parser is the library esprima: \<open>parseScript\<close> returns the tree or throws an error
  with a message (\<open>Inl\<close>). \<open>typeErrorMessage p\<close> is the message of the TypeError the
  engine raises when property \<open>p\<close> is read from \<open>null\<close> or \<open>undefined\<close>.
\<close>

record parser_env =
  parseScript :: "string \<Rightarrow> string + jsval"
  typeErrorMessage :: "string \<Rightarrow> string"

text \<open>
  The state of one scan: the flag \<open>isSuspicious\<close> and the entries handed to \<open>saveLog\<close>
  so far, oldest first.
\<close>

type_synonym scan_state = "bool \<times> jsval list"

subsection \<open>JavaScript variant (script-analyzer.js)\<close>

text \<open>
  This variant reads \<open>node.loc.start.line\<close>, \<open>node.callee.type\<close> and
  \<open>node.left.type\<close> without a guard, so each can throw; the surrounding \<open>try\<close> catches
  the error, logs it as a parse failure and returns \<open>false\<close>. A step returns
  \<open>Some p\<close> when the read of property \<open>p\<close> threw. The loop over the own properties
  of a node hands every element of an array child to \<open>traverse\<close> and every other child
  to \<open>traverse\<close> itself.
\<close>

definition logAnomaly_js :: "string \<Rightarrow> string \<Rightarrow> jsval \<Rightarrow> jsval" where
  "logAnomaly_js scriptId ty line =
    JObj [(''type'', JStr ''script_anomaly''),
          (''detection_source'', JStr ''static_analysis''),
          (''severity'', JStr ''high''),
          (''script_id'', JStr scriptId),
          (''line_number'', line),
          (''details'', JStr (''High-risk structural anomaly found: '' @ ty))]"

definition flag_js :: "string \<Rightarrow> string \<Rightarrow> jsval \<Rightarrow> scan_state \<Rightarrow> scan_state" where
  "flag_js scriptId ty line st = (True, snd st @ [logAnomaly_js scriptId ty line])"

definition line_js :: "jsval \<Rightarrow> string + jsval" where
  "line_js node =
    (let loc = get node ''loc''
     in if truthy loc
        then (let start = get loc ''start''
              in if nullish start then Inl ''line'' else Inr (get start ''line''))
        else Inr (JNum 0))"

definition rule1_js :: "string \<Rightarrow> jsval \<Rightarrow> jsval \<Rightarrow> scan_state \<Rightarrow> string option \<times> scan_state" where
  "rule1_js scriptId node line st =
    (if get node ''type'' = JStr ''CallExpression''
     then (let callee = get node ''callee''
           in if nullish callee then (Some ''type'', st)
              else if get callee ''type'' = JStr ''Identifier''
              then (let functionName = get callee ''name''
                    in if list_includes DANGEROUS_CALLS functionName
                       then (None, flag_js scriptId
                                     (''Function call to '' @ [CHR 0x27] @ template functionName @ [CHR 0x27])
                                     line st)
                       else (None, st))
              else (None, st))
     else (None, st))"

definition rule2_js :: "string \<Rightarrow> jsval \<Rightarrow> jsval \<Rightarrow> scan_state \<Rightarrow> scan_state" where
  "rule2_js scriptId node line st =
    (if get node ''type'' = JStr ''MemberExpression'' \<and> truthy (get node ''property'')
         \<and> get (get node ''property'') ''type'' = JStr ''Identifier''
     then (let propertyName = get (get node ''property'') ''name''
           in if list_includes STRING_MANIPULATORS propertyName
              then flag_js scriptId (''Obfuscation method detected: '' @ template propertyName) line st
              else st)
     else st)"

definition rule3_js :: "string \<Rightarrow> jsval \<Rightarrow> jsval \<Rightarrow> scan_state \<Rightarrow> string option \<times> scan_state" where
  "rule3_js scriptId node line st =
    (if get node ''type'' = JStr ''AssignmentExpression''
     then (let left = get node ''left''
           in if nullish left then (Some ''type'', st)
              else if get left ''type'' = JStr ''MemberExpression'' \<and> truthy (get left ''property'')
                      \<and> get (get left ''property'') ''name'' = JStr ''cookie''
              then (None, flag_js scriptId (''Direct assignment to '' @ [CHR 0x27] @ ''document.cookie'' @ [CHR 0x27]) line st)
              else (None, st))
     else (None, st))"

definition visit_js :: "string \<Rightarrow> jsval \<Rightarrow> scan_state \<Rightarrow> string option \<times> scan_state" where
  "visit_js scriptId node st =
    (case line_js node of
       Inl e \<Rightarrow> (Some e, st)
     | Inr line \<Rightarrow>
        (case rule1_js scriptId node line st of
           (Some e, st1) \<Rightarrow> (Some e, st1)
         | (None, st1) \<Rightarrow> rule3_js scriptId node line (rule2_js scriptId node line st1)))"

fun traverse_js :: "string \<Rightarrow> jsval \<Rightarrow> scan_state \<Rightarrow> string option \<times> scan_state"
and children_js :: "string \<Rightarrow> jsval list \<Rightarrow> scan_state \<Rightarrow> string option \<times> scan_state"
and forEach_js :: "string \<Rightarrow> jsval list \<Rightarrow> scan_state \<Rightarrow> string option \<times> scan_state" where
  "traverse_js scriptId (JObj kvs) st =
    (case visit_js scriptId (JObj kvs) st of
       (Some e, st') \<Rightarrow> (Some e, st')
     | (None, st') \<Rightarrow> children_js scriptId (map snd kvs) st')"
| "traverse_js scriptId (JArr xs) st =
    (case visit_js scriptId (JArr xs) st of
       (Some e, st') \<Rightarrow> (Some e, st')
     | (None, st') \<Rightarrow> children_js scriptId xs st')"
| "traverse_js scriptId JUndef st = (None, st)"
| "traverse_js scriptId JNull st = (None, st)"
| "traverse_js scriptId (JBool b) st = (None, st)"
| "traverse_js scriptId (JNum n) st = (None, st)"
| "traverse_js scriptId (JStr s) st = (None, st)"
| "children_js scriptId [] st = (None, st)"
| "children_js scriptId (JArr ys # cs) st =
    (case forEach_js scriptId ys st of
       (Some e, st') \<Rightarrow> (Some e, st')
     | (None, st') \<Rightarrow> children_js scriptId cs st')"
| "children_js scriptId (child # cs) st =
    (case traverse_js scriptId child st of
       (Some e, st') \<Rightarrow> (Some e, st')
     | (None, st') \<Rightarrow> children_js scriptId cs st')"
| "forEach_js scriptId [] st = (None, st)"
| "forEach_js scriptId (x # xs) st =
    (case traverse_js scriptId x st of
       (Some e, st') \<Rightarrow> (Some e, st')
     | (None, st') \<Rightarrow> forEach_js scriptId xs st')"


definition parse_error_js :: "string \<Rightarrow> string \<Rightarrow> jsval" where
  "parse_error_js scriptId message =
    JObj [(''type'', JStr ''script_analysis_error''),
          (''severity'', JStr ''medium''),
          (''script_id'', JStr scriptId),
          (''details'', JStr (''Script parsing failed: '' @ message))]"

definition scanScriptForAnomalies_js :: "parser_env \<Rightarrow> string \<Rightarrow> string \<Rightarrow> bool \<times> jsval list" where
  "scanScriptForAnomalies_js E scriptContent scriptId =
    (case parseScript E scriptContent of
       Inl message \<Rightarrow> (False, [parse_error_js scriptId message])
     | Inr AST \<Rightarrow>
        (case traverse_js scriptId AST (False, []) of
           (None, (isSuspicious, emitted)) \<Rightarrow> (isSuspicious, emitted)
         | (Some e, (isSuspicious, emitted)) \<Rightarrow>
             (False, emitted @ [parse_error_js scriptId (typeErrorMessage E e)])))"

subsection \<open>TypeScript variant (script-analyzer.ts)\<close>

text \<open>
  This variant reads through optional chaining, so nothing throws. Its loop descends
  into the elements of an array child and into an object child that has a truthy
  \<open>type\<close>; other children are skipped.
\<close>

definition logAnomaly_ts :: "string \<Rightarrow> string \<Rightarrow> jsval \<Rightarrow> jsval" where
  "logAnomaly_ts scriptId ty line =
    JObj [(''type'', JStr ''script_anomaly''),
          (''detection_source'', JStr ''static_analysis''),
          (''severity'', JStr ''high''),
          (''script_id'', JStr scriptId),
          (''line_number'', line),
          (''details'', JStr (''High-risk function: '' @ ty))]"

definition flag_ts :: "string \<Rightarrow> string \<Rightarrow> jsval \<Rightarrow> scan_state \<Rightarrow> scan_state" where
  "flag_ts scriptId ty line st = (True, snd st @ [logAnomaly_ts scriptId ty line])"

definition line_ts :: "jsval \<Rightarrow> jsval" where
  "line_ts node =
    (let l = get (get (get node ''loc'') ''start'') ''line''
     in if truthy l then l else JNum 0)"

definition rule1_ts :: "string \<Rightarrow> jsval \<Rightarrow> jsval \<Rightarrow> scan_state \<Rightarrow> scan_state" where
  "rule1_ts scriptId node line st =
    (if get node ''type'' = JStr ''CallExpression''
         \<and> get (get node ''callee'') ''type'' = JStr ''Identifier''
     then (let functionName = get (get node ''callee'') ''name''
           in if list_includes DANGEROUS_CALLS functionName
              then flag_ts scriptId
                     (''Function call to '' @ [CHR 0x27] @ template functionName @ [CHR 0x27])
                     line st
              else st)
     else st)"

definition rule2_ts :: "string \<Rightarrow> jsval \<Rightarrow> jsval \<Rightarrow> scan_state \<Rightarrow> scan_state" where
  "rule2_ts scriptId node line st =
    (if get node ''type'' = JStr ''MemberExpression''
         \<and> get (get node ''property'') ''type'' = JStr ''Identifier''
     then (let propertyName = get (get node ''property'') ''name''
           in if list_includes STRING_MANIPULATORS propertyName
              then flag_ts scriptId (''Obfuscation method: '' @ template propertyName) line st
              else st)
     else st)"

definition rule3_ts :: "string \<Rightarrow> jsval \<Rightarrow> jsval \<Rightarrow> scan_state \<Rightarrow> scan_state" where
  "rule3_ts scriptId node line st =
    (if get node ''type'' = JStr ''AssignmentExpression''
         \<and> get (get node ''left'') ''type'' = JStr ''MemberExpression''
         \<and> get (get (get node ''left'') ''property'') ''name'' = JStr ''cookie''
     then flag_ts scriptId ''Writes to document.cookie'' line st
     else st)"

definition visit_ts :: "string \<Rightarrow> jsval \<Rightarrow> scan_state \<Rightarrow> scan_state" where
  "visit_ts scriptId node st =
    (let line = line_ts node
     in rule3_ts scriptId node line (rule2_ts scriptId node line (rule1_ts scriptId node line st)))"

fun traverse_ts :: "string \<Rightarrow> jsval \<Rightarrow> scan_state \<Rightarrow> scan_state"
and children_ts :: "string \<Rightarrow> jsval list \<Rightarrow> scan_state \<Rightarrow> scan_state"
and forEach_ts :: "string \<Rightarrow> jsval list \<Rightarrow> scan_state \<Rightarrow> scan_state" where
  "traverse_ts scriptId (JObj kvs) st =
     children_ts scriptId (map snd kvs) (visit_ts scriptId (JObj kvs) st)"
| "traverse_ts scriptId (JArr xs) st =
     children_ts scriptId xs (visit_ts scriptId (JArr xs) st)"
| "traverse_ts scriptId JUndef st = st"
| "traverse_ts scriptId JNull st = st"
| "traverse_ts scriptId (JBool b) st = st"
| "traverse_ts scriptId (JNum n) st = st"
| "traverse_ts scriptId (JStr s) st = st"
| "children_ts scriptId [] st = st"
| "children_ts scriptId (JArr ys # cs) st =
     children_ts scriptId cs (forEach_ts scriptId ys st)"
| "children_ts scriptId (JObj kvs # cs) st =
     children_ts scriptId cs
       (if truthy (get (JObj kvs) ''type'') then traverse_ts scriptId (JObj kvs) st else st)"
| "children_ts scriptId (child # cs) st = children_ts scriptId cs st"
| "forEach_ts scriptId [] st = st"
| "forEach_ts scriptId (x # xs) st = forEach_ts scriptId xs (traverse_ts scriptId x st)"

definition parse_error_ts :: "string \<Rightarrow> string \<Rightarrow> jsval" where
  "parse_error_ts scriptId message =
    JObj [(''type'', JStr ''script_analysis_error''),
          (''detection_source'', JStr ''static_analysis''),
          (''severity'', JStr ''medium''),
          (''script_id'', JStr scriptId),
          (''details'', JStr (''Failed to parse: '' @ message))]"

definition scanScriptForAnomalies_ts :: "parser_env \<Rightarrow> string \<Rightarrow> string \<Rightarrow> bool \<times> jsval list" where
  "scanScriptForAnomalies_ts E scriptContent scriptId =
    (case parseScript E scriptContent of
       Inl message \<Rightarrow> (False, [parse_error_ts scriptId message])
     | Inr AST \<Rightarrow> traverse_ts scriptId AST (False, []))"

subsection \<open>The nodes of a tree\<close>

text \<open>
  \<open>visited_js\<close> and \<open>visited_ts\<close> list, in order, the values on which each variant runs
  its rules. \<open>syntax_nodes\<close> lists the syntax nodes a tree contains: the root, and every
  object with a \<open>type\<close> that is a property of a node or an element of an array property
  of a node.
\<close>


fun visited_js :: "jsval \<Rightarrow> jsval list"
and visited_children_js :: "jsval list \<Rightarrow> jsval list"
and visited_elements_js :: "jsval list \<Rightarrow> jsval list" where
  "visited_js (JObj kvs) = JObj kvs # visited_children_js (map snd kvs)"
| "visited_js (JArr xs) = JArr xs # visited_children_js xs"
| "visited_js JUndef = []"
| "visited_js JNull = []"
| "visited_js (JBool b) = []"
| "visited_js (JNum n) = []"
| "visited_js (JStr s) = []"
| "visited_children_js [] = []"
| "visited_children_js (JArr ys # cs) = visited_elements_js ys @ visited_children_js cs"
| "visited_children_js (child # cs) = visited_js child @ visited_children_js cs"
| "visited_elements_js [] = []"
| "visited_elements_js (x # xs) = visited_js x @ visited_elements_js xs"

fun visited_ts :: "jsval \<Rightarrow> jsval list"
and visited_children_ts :: "jsval list \<Rightarrow> jsval list"
and visited_elements_ts :: "jsval list \<Rightarrow> jsval list" where
  "visited_ts (JObj kvs) = JObj kvs # visited_children_ts (map snd kvs)"
| "visited_ts (JArr xs) = JArr xs # visited_children_ts xs"
| "visited_ts JUndef = []"
| "visited_ts JNull = []"
| "visited_ts (JBool b) = []"
| "visited_ts (JNum n) = []"
| "visited_ts (JStr s) = []"
| "visited_children_ts [] = []"
| "visited_children_ts (JArr ys # cs) = visited_elements_ts ys @ visited_children_ts cs"
| "visited_children_ts (JObj kvs # cs) =
     (if truthy (get (JObj kvs) ''type'') then visited_ts (JObj kvs) else [])
     @ visited_children_ts cs"
| "visited_children_ts (child # cs) = visited_children_ts cs"
| "visited_elements_ts [] = []"
| "visited_elements_ts (x # xs) = visited_ts x @ visited_elements_ts xs"

fun syntax_nodes :: "jsval \<Rightarrow> jsval list"
and child_nodes :: "jsval list \<Rightarrow> jsval list"
and element_nodes :: "jsval list \<Rightarrow> jsval list" where
  "syntax_nodes (JObj kvs) = JObj kvs # child_nodes (map snd kvs)"
| "syntax_nodes JUndef = []"
| "syntax_nodes JNull = []"
| "syntax_nodes (JBool b) = []"
| "syntax_nodes (JNum n) = []"
| "syntax_nodes (JStr s) = []"
| "syntax_nodes (JArr xs) = []"
| "child_nodes [] = []"
| "child_nodes (JArr ys # cs) = element_nodes ys @ child_nodes cs"
| "child_nodes (JObj kvs # cs) =
     (if truthy (get (JObj kvs) ''type'') then syntax_nodes (JObj kvs) else [])
     @ child_nodes cs"
| "child_nodes (child # cs) = child_nodes cs"
| "element_nodes [] = []"
| "element_nodes (JObj kvs # xs) =
     (if truthy (get (JObj kvs) ''type'') then syntax_nodes (JObj kvs) else [])
     @ element_nodes xs"
| "element_nodes (x # xs) = element_nodes xs"

text \<open>Running the rules of the JavaScript variant over a list of values, up to the first throw.\<close>

fun run_js :: "string \<Rightarrow> jsval list \<Rightarrow> scan_state \<Rightarrow> string option \<times> scan_state" where
  "run_js scriptId [] st = (None, st)"
| "run_js scriptId (n # ns) st =
    (case visit_js scriptId n st of
       (Some e, st') \<Rightarrow> (Some e, st')
     | (None, st') \<Rightarrow> run_js scriptId ns st')"

subsection \<open>Well-formed trees and dangerous calls\<close>

text \<open>
  \<open>node_throws_js n\<close>: one of the unguarded reads of the JavaScript variant throws at
  \<open>n\<close>. A tree from the parser has a position on every node, a callee on every call and
  a left side on every assignment, so none of its nodes throws: \<open>estree_ok\<close>.
\<close>

definition node_throws_js :: "jsval \<Rightarrow> bool" where
  "node_throws_js n =
    ((truthy (get n ''loc'') \<and> nullish (get (get n ''loc'') ''start''))
     \<or> (get n ''type'' = JStr ''CallExpression'' \<and> nullish (get n ''callee''))
     \<or> (get n ''type'' = JStr ''AssignmentExpression'' \<and> nullish (get n ''left'')))"

definition estree_ok :: "jsval \<Rightarrow> bool" where
  "estree_ok ast = list_all (\<lambda>n. \<not> node_throws_js n) (visited_js ast)"

definition dangerous_call :: "jsval \<Rightarrow> string \<Rightarrow> bool" where
  "dangerous_call n f =
    (get n ''type'' = JStr ''CallExpression''
     \<and> get (get n ''callee'') ''type'' = JStr ''Identifier''
     \<and> get (get n ''callee'') ''name'' = JStr f
     \<and> f \<in> set DANGEROUS_CALLS)"

definition start_line :: "jsval \<Rightarrow> jsval" where
  "start_line n = get (get (get n ''loc'') ''start'') ''line''"

definition call_detail :: "string \<Rightarrow> string" where
  "call_detail f = ''Function call to '' @ [CHR 0x27] @ f @ [CHR 0x27]"

section \<open>The specification's reading of confidence\<close>

text \<open>
  Written from the specification, to be compared with \<open>calculateConfidence\<close>: each field
  that is present contributes its weight, the four required fields weigh 1.0 each and
  are always present, and the result is the rounded percentage of the total weight.
\<close>

definition weight_if :: "bool \<Rightarrow> real \<Rightarrow> real" where
  "weight_if present w = (if present then w else 0)"

definition present_weight :: "AnomalyMetrics \<Rightarrow> real" where
  "present_weight m =
     1 + 1 + 1 + 1
     + weight_if (uploadFrequency m \<noteq> None) 0.8
     + weight_if (dangerousFunctionCount m \<noteq> None) 0.8
     + weight_if (cookieAccessDetected m \<noteq> None) 0.8
     + weight_if (isFirstVisit m \<noteq> None) 0.6
     + weight_if (userInteractionOccurred m \<noteq> None) 0.6
     + weight_if (timeOfDay m \<noteq> None) 0.4
     + weight_if (domainAge m \<noteq> None) 0.7"

definition total_weight :: real where
  "total_weight = 1 + 1 + 1 + 1 + 0.8 + 0.8 + 0.8 + 0.6 + 0.6 + 0.4 + 0.7"

definition confidence_spec :: "AnomalyMetrics \<Rightarrow> real" where
  "confidence_spec m = of_int (round (present_weight m / total_weight * 100))"

section \<open>The terms of the sub-scores\<close>

text \<open>
  Each \<open>score +=\<close> of a sub-score adds a term that does not depend on the score so
  far. These are the sums of the finite terms, used to state the value of each sub-score:
  the tiers of the behavioural score without its reputation term, and the points of the
  temporal and structural scores before the cap.
\<close>

definition behavioral_tiers :: "AnomalyMetrics \<Rightarrow> real" where
  "behavioral_tiers m =
     0 + (if requestCount m > Num 50 then 30 else if requestCount m > Num 20 then 20
          else if requestCount m > Num 10 then 10 else 0)
       + (if dataExfilSize m / Num (1024 * 1024) > Num 10 then 25
          else if dataExfilSize m / Num (1024 * 1024) > Num 5 then 18
          else if dataExfilSize m / Num (1024 * 1024) > Num 1 then 10 else 0)
       + (if num_above (uploadFrequency m) (Num 10) then 20
          else if num_above (uploadFrequency m) (Num 5) then 12 else 0)"

definition temporal_points :: "AnomalyMetrics \<Rightarrow> real" where
  "temporal_points m =
     (if truthy_bool (isFirstVisit m)
      then 0 + (if requestCount m > Num 20 then 25 else 0)
             + (if dataExfilSize m > Num (1024 * 1024) then 20 else 0)
      else 0)
     + (if \<not> truthy_bool (userInteractionOccurred m)
        then (if requestCount m > Num 5 then 30 else if requestCount m > Num 0 then 15 else 0)
        else 0)
     + (case timeOfDay m of None \<Rightarrow> 0
        | Some t \<Rightarrow> (if t \<ge> Num 2 \<and> t \<le> Num 5 then 20 else 0))
     + (case domainAge m of None \<Rightarrow> 0
        | Some a \<Rightarrow> (if a = Num 0 then 30 else if a < Num 7 then 20
                     else if a < Num 30 then 10 else 0))"

definition structural_points :: "AnomalyMetrics \<Rightarrow> real" where
  "structural_points m =
     0 + (if obfuscationDetected m then 40 else 0)
       + (case dangerousFunctionCount m of None \<Rightarrow> 0
          | Some c \<Rightarrow> (if c > Num 10 then 30 else if c > Num 5 then 20
                       else if c > Num 0 then 10 else 0))
       + (if truthy_bool (cookieAccessDetected m) then 30 else 0)"

section \<open>Concrete inputs\<close>

text \<open>A snapshot with the required fields only.\<close>

definition required_only :: "jsnum \<Rightarrow> jsnum \<Rightarrow> jsnum \<Rightarrow> bool \<Rightarrow> AnomalyMetrics" where
  "required_only rc rep exfil obf =
    \<lparr>requestCount = rc, domainRepScore = rep, obfuscationDetected = obf,
     dataExfilSize = exfil, uploadFrequency = None, dangerousFunctionCount = None,
     cookieAccessDetected = None, isFirstVisit = None, userInteractionOccurred = None,
     timeOfDay = None, domainAge = None\<rparr>"

text \<open>A first visit with fifteen requests and nothing known about user interaction.\<close>

definition first_visit_burst :: AnomalyMetrics where
  "first_visit_burst = (required_only (Num 15) (Num 10) (Num 0) False)\<lparr>isFirstVisit := Some True\<rparr>"

definition scenario_metrics :: SimpleMetrics where
  "scenario_metrics =
    \<lparr>requestCount = Num 15, domainRepScore = Num 3, obfuscationDetected = False\<rparr>"

definition example_platform :: platform where
  "example_platform =
    \<lparr>url_hostname = (\<lambda>u. Some ''x.example''),
     parseInt = (\<lambda>s. if s = ''1000'' then Some 1000
                      else if s = ''2000'' then Some 2000 else None),
     numToString = (\<lambda>n. if n = 3000 then ''3000'' else ''?'')\<rparr>"

definition upload_request :: "string \<Rightarrow> string \<Rightarrow> RequestDetails" where
  "upload_request u len =
    \<lparr>url = u, requestHeaders = [\<lparr>name = ''Content-Length'', val = Some len\<rparr>]\<rparr>"

definition mk_pos :: "real \<Rightarrow> real \<Rightarrow> jsval" where
  "mk_pos l c = JObj [(''line'', JNum l), (''column'', JNum c)]"

definition mk_loc :: "real \<Rightarrow> real \<Rightarrow> real \<Rightarrow> real \<Rightarrow> jsval" where
  "mk_loc l1 c1 l2 c2 = JObj [(''start'', mk_pos l1 c1), (''end'', mk_pos l2 c2)]"

text \<open>The two-line script \<open>var x = 1;\<close> / \<open>eval(x);\<close> and the tree the parser gives for it.\<close>

definition example_script :: string where
  "example_script = ''var x = 1;'' @ [CHR 0x0A] @ ''eval(x);''"

definition example_call :: jsval where
  "example_call =
     JObj [(''type'', JStr ''CallExpression''),
           (''callee'', JObj [(''type'', JStr ''Identifier''), (''name'', JStr ''eval''),
                              (''loc'', mk_loc 2 0 2 4)]),
           (''arguments'', JArr [JObj [(''type'', JStr ''Identifier''), (''name'', JStr ''x''),
                                       (''loc'', mk_loc 2 5 2 6)]]),
           (''loc'', mk_loc 2 0 2 7)]"

definition example_ast :: jsval where
  "example_ast =
    JObj [(''type'', JStr ''Program''),
          (''body'', JArr
             [JObj [(''type'', JStr ''VariableDeclaration''),
                    (''declarations'', JArr
                       [JObj [(''type'', JStr ''VariableDeclarator''),
                              (''id'', JObj [(''type'', JStr ''Identifier''),
                                             (''name'', JStr ''x''),
                                             (''loc'', mk_loc 1 4 1 5)]),
                              (''init'', JObj [(''type'', JStr ''Literal''),
                                               (''value'', JNum 1),
                                               (''raw'', JStr ''1''),
                                               (''loc'', mk_loc 1 8 1 9)]),
                              (''loc'', mk_loc 1 4 1 9)]]),
                    (''kind'', JStr ''var''),
                    (''loc'', mk_loc 1 0 1 10)],
              JObj [(''type'', JStr ''ExpressionStatement''),
                    (''expression'', example_call),
                    (''loc'', mk_loc 2 0 2 8)]]),
          (''sourceType'', JStr ''script''),
          (''loc'', mk_loc 1 0 2 8)]"

text \<open>A parser that knows the example script and rejects every other text.\<close>

definition example_env :: parser_env where
  "example_env =
    \<lparr>parseScript = (\<lambda>s. if s = example_script then Inr example_ast
                          else Inl ''Line 1: Unexpected token''),
     typeErrorMessage = (\<lambda>p. ''Cannot read properties of undefined'')\<rparr>"

section \<open>Properties of the scorer\<close>

text \<open>Arithmetic on numbers.\<close>

lemma plus_Num_0 [simp]: "x + Num 0 = x"
  by (cases x) simp_all

lemma Math_min_Num [simp]: "Math_min (Num a) (Num b) = Num (min a b)"
  by (simp add: Math_min_def min_def)

lemma Math_min_NaN [simp]: "Math_min NaN b = NaN"
  by (simp add: Math_min_def)

lemma Math_min_NegInf [simp]: "Math_min NegInf (Num b) = NegInf"
  by (simp add: Math_min_def)

lemma Math_min_PosInf [simp]: "Math_min PosInf (Num b) = Num b"
  by (simp add: Math_min_def)

lemma if_add_both: "(if a then x + p else x + q) = x + (if a then p else (q::jsnum))"
  by simp

lemma if_add1: "(if a then x + p else x) = x + (if a then p else Num 0)"
  by simp

lemma case_add:
  "(case v of None \<Rightarrow> x | Some y \<Rightarrow> x + f y)
   = x + (case v of None \<Rightarrow> Num 0 | Some y \<Rightarrow> f y)"
  by (cases v) simp_all

lemma if_Num: "(if c then Num a else Num b) = Num (if c then a else b)"
  by simp

lemma case_Num:
  "(case v of None \<Rightarrow> Num a | Some y \<Rightarrow> Num (f y)) = Num (case v of None \<Rightarrow> a | Some y \<Rightarrow> f y)"
  by (cases v) simp_all

lemma Num_plus: "Num a + Num b = Num (a + b)"
  by simp

lemma times_Num_1 [simp]: "x * Num 1 = x"
  by (cases x) (simp_all add: inf_times_def)

lemma if_times: "(if c then x * Num k else x) = x * Num (if c then k else 1)"
  by simp

text \<open>The value of each sub-score.\<close>

lemma behavioral_form:
  "calculateBehavioralScore m =
     Math_min (Num (behavioral_tiers m) + (Num 10 - domainRepScore m) * Num 2.5) (Num 100)"
  by (simp only: calculateBehavioralScore_def behavioral_tiers_def Let_def
      if_add_both if_add1 if_Num Num_plus)

lemma behavioral_value:
  "calculateBehavioralScore m =
    (case domainRepScore m of
       NaN \<Rightarrow> NaN
     | NegInf \<Rightarrow> Num 100
     | Num r \<Rightarrow> Num (min (behavioral_tiers m + (10 - r) * 2.5) 100)
     | PosInf \<Rightarrow> NegInf)"
  unfolding behavioral_form
  by (cases "domainRepScore m") (simp_all add: minus_jsnum_def inf_times_def)

lemma temporal_form: "calculateTemporalScore m = Num (min (temporal_points m) 100)"
  by (simp only: calculateTemporalScore_def temporal_points_def Let_def
      if_add_both if_add1 case_add if_Num case_Num Num_plus Math_min_Num)

lemma structural_form: "calculateStructuralScore m = Num (min (structural_points m) 100)"
  by (simp only: calculateStructuralScore_def structural_points_def Let_def
      if_add_both if_add1 case_add if_Num case_Num Num_plus Math_min_Num)

lemma behavioral_tiers_nonneg: "0 \<le> behavioral_tiers m"
proof -
  define T where "T = (if requestCount m > Num 50 then 30 else if requestCount m > Num 20 then 20
          else if requestCount m > Num 10 then 10 else (0::real))"
  define X where "X = (if dataExfilSize m / Num (1024 * 1024) > Num 10 then 25
          else if dataExfilSize m / Num (1024 * 1024) > Num 5 then 18
          else if dataExfilSize m / Num (1024 * 1024) > Num 1 then 10 else (0::real))"
  define U where "U = (if num_above (uploadFrequency m) (Num 10) then 20
          else if num_above (uploadFrequency m) (Num 5) then 12 else (0::real))"
  have form: "behavioral_tiers m = 0 + T + X + U"
    unfolding behavioral_tiers_def T_def X_def U_def by (rule refl)
  have "0 \<le> T" "0 \<le> X" "0 \<le> U" by (simp_all add: T_def X_def U_def)
  then show ?thesis unfolding form by simp
qed

lemma temporal_points_nonneg: "0 \<le> temporal_points m"
proof -
  define A where "A = (if truthy_bool (isFirstVisit m)
      then 0 + (if requestCount m > Num 20 then 25 else 0)
             + (if dataExfilSize m > Num (1024 * 1024) then 20 else 0)
      else (0::real))"
  define B where "B = (if \<not> truthy_bool (userInteractionOccurred m)
        then (if requestCount m > Num 5 then 30 else if requestCount m > Num 0 then 15 else 0)
        else (0::real))"
  define C where "C = (case timeOfDay m of None \<Rightarrow> 0
        | Some t \<Rightarrow> (if t \<ge> Num 2 \<and> t \<le> Num 5 then 20 else (0::real)))"
  define D where "D = (case domainAge m of None \<Rightarrow> 0
        | Some a \<Rightarrow> (if a = Num 0 then 30 else if a < Num 7 then 20
                     else if a < Num 30 then 10 else (0::real)))"
  have form: "temporal_points m = A + B + C + D"
    unfolding temporal_points_def A_def B_def C_def D_def by (rule refl)
  have "0 \<le> A" "0 \<le> B" "0 \<le> C" "0 \<le> D"
    by (simp_all add: A_def B_def C_def D_def split: option.splits)
  then show ?thesis unfolding form by simp
qed

lemma structural_points_nonneg: "0 \<le> structural_points m"
proof -
  define A where "A = (if obfuscationDetected m then 40 else (0::real))"
  define B where "B = (case dangerousFunctionCount m of None \<Rightarrow> 0
          | Some c \<Rightarrow> (if c > Num 10 then 30 else if c > Num 5 then 20
                       else if c > Num 0 then 10 else (0::real)))"
  define C where "C = (if truthy_bool (cookieAccessDetected m) then 30 else (0::real))"
  have form: "structural_points m = 0 + A + B + C"
    unfolding structural_points_def A_def B_def C_def by (rule refl)
  have "0 \<le> A" "0 \<le> B" "0 \<le> C"
    by (simp_all add: A_def B_def C_def split: option.splits)
  then show ?thesis unfolding form by simp
qed

text \<open>
  The combined score: each pattern multiplies by a positive factor, so a NaN stays NaN,
  a negative infinity stays so, and a number stays a number of the same sign.
\<close>

lemma analyze_form:
  "combinedScore (analyzeContext m) =
     Math_min
       ((calculateBehavioralScore m * Num 0.40
          + Num (min (temporal_points m) 100) * Num 0.30
          + Num (min (structural_points m) 100) * Num 0.30)
        * Num (if obfuscationDetected m \<and> dataExfilSize m > Num (1024 * 1024)
               then 1.3 else 1)
        * Num (if truthy_bool (isFirstVisit m) \<and> \<not> truthy_bool (userInteractionOccurred m)
                  \<and> requestCount m > Num 10 then 1.25 else 1)
        * Num (if truthy_bool (cookieAccessDetected m)
                  \<and> num_above (uploadFrequency m) (Num 10) then 1.4 else 1)
        * Num (if domainRepScore m < Num 3 \<and> obfuscationDetected m
                  \<and> dataExfilSize m > Num 0 then 1.35 else 1))
       (Num 100)"
  by (simp only: analyzeContext_def Let_def ThreatContext.select_convs temporal_form
      structural_form if_times)

lemma combined_cases:
  fixes m :: AnomalyMetrics
  shows "(calculateBehavioralScore m = NaN \<longrightarrow> combinedScore (analyzeContext m) = NaN)
       \<and> (calculateBehavioralScore m = NegInf \<longrightarrow> combinedScore (analyzeContext m) = NegInf)
       \<and> (\<forall>b. calculateBehavioralScore m = Num b \<longrightarrow>
             (\<exists>c. combinedScore (analyzeContext m) = Num c \<and> c \<le> 100
                  \<and> (0 \<le> b \<longrightarrow> 0 \<le> c)))"
proof -
  define k1 :: real where "k1 = (if obfuscationDetected m \<and> dataExfilSize m > Num (1024 * 1024)
               then 1.3 else 1)"
  define k2 :: real where "k2 = (if truthy_bool (isFirstVisit m)
                  \<and> \<not> truthy_bool (userInteractionOccurred m)
                  \<and> requestCount m > Num 10 then 1.25 else 1)"
  define k3 :: real where "k3 = (if truthy_bool (cookieAccessDetected m)
                  \<and> num_above (uploadFrequency m) (Num 10) then 1.4 else 1)"
  define k4 :: real where "k4 = (if domainRepScore m < Num 3 \<and> obfuscationDetected m
                  \<and> dataExfilSize m > Num 0 then 1.35 else 1)"
  define t where "t = min (temporal_points m) 100"
  define s where "s = min (structural_points m) 100"
  have k: "0 < k1" "0 < k2" "0 < k3" "0 < k4"
    by (simp_all add: k1_def k2_def k3_def k4_def)
  have ts: "0 \<le> t" "0 \<le> s"
    using temporal_points_nonneg[of m] structural_points_nonneg[of m]
    by (simp_all add: t_def s_def)
  have form: "combinedScore (analyzeContext m) =
     Math_min ((calculateBehavioralScore m * Num 0.40 + Num t * Num 0.30 + Num s * Num 0.30)
               * Num k1 * Num k2 * Num k3 * Num k4) (Num 100)"
    unfolding analyze_form k1_def k2_def k3_def k4_def t_def s_def by (rule refl)
  have nan: "combinedScore (analyzeContext m) = NaN" if "calculateBehavioralScore m = NaN"
    unfolding form that by simp
  have neg: "combinedScore (analyzeContext m) = NegInf"
    if "calculateBehavioralScore m = NegInf"
    unfolding form that using k by (simp add: inf_times_def)
  have num: "\<exists>c. combinedScore (analyzeContext m) = Num c \<and> c \<le> 100 \<and> (0 \<le> b \<longrightarrow> 0 \<le> c)"
    if "calculateBehavioralScore m = Num b" for b
  proof -
    let ?c = "(b * 0.40 + t * 0.30 + s * 0.30) * k1 * k2 * k3 * k4"
    have v: "combinedScore (analyzeContext m) = Num (min ?c 100)"
      unfolding form that by simp
    have "0 \<le> ?c" if "0 \<le> b"
    proof -
      from that ts have "0 \<le> b * 0.40 + t * 0.30 + s * 0.30" by simp
      with k show ?thesis by simp
    qed
    with v show ?thesis by auto
  qed
  from nan neg num show ?thesis by blast
qed

lemma behavioral_not_PosInf: "calculateBehavioralScore m \<noteq> PosInf"
  by (simp add: behavioral_value split: jsnum.splits)

lemma combined_upper:
  assumes "domainRepScore m \<noteq> NaN"
  shows "combinedScore (analyzeContext m) \<le> Num 100"
proof (cases "calculateBehavioralScore m")
  case NaN
  with assms show ?thesis by (simp add: behavioral_value split: jsnum.splits)
next
  case NegInf
  with combined_cases[of m] show ?thesis by simp
next
  case (Num b)
  with combined_cases[of m] show ?thesis by auto
next
  case PosInf
  with behavioral_not_PosInf show ?thesis by simp
qed

lemma combined_lower:
  assumes "domainRepScore m \<le> Num 10"
  shows "Num 0 \<le> combinedScore (analyzeContext m)"
proof (cases "domainRepScore m")
  case NaN
  with assms show ?thesis by simp
next
  case NegInf
  then have "calculateBehavioralScore m = Num 100" by (simp add: behavioral_value)
  with combined_cases[of m] show ?thesis by auto
next
  case (Num r)
  with assms have r: "r \<le> 10" by simp
  let ?b = "min (behavioral_tiers m + (10 - r) * 2.5) 100"
  have b: "calculateBehavioralScore m = Num ?b" by (simp add: behavioral_value Num)
  have "0 \<le> ?b" using r behavioral_tiers_nonneg[of m] by simp
  with b combined_cases[of m] show ?thesis by auto
next
  case PosInf
  with assms show ?thesis by simp
qed

lemma combined_NaN:
  assumes "domainRepScore m = NaN"
  shows "combinedScore (analyzeContext m) = NaN"
proof -
  from assms have "calculateBehavioralScore m = NaN" by (simp add: behavioral_value)
  with combined_cases[of m] show ?thesis by simp
qed

text \<open>Monotonicity of the behavioural score.\<close>

lemma tier_mono:
  fixes r1 r2 :: jsnum
  assumes "r1 \<le> r2"
  shows "(if r1 > Num 50 then 30 else if r1 > Num 20 then 20 else if r1 > Num 10 then 10
          else (0::real))
         \<le> (if r2 > Num 50 then 30 else if r2 > Num 20 then 20 else if r2 > Num 10 then 10
             else 0)"
  using assms by (cases r1; cases r2) simp_all

lemma mono_rc:
  assumes "r1 \<le> r2" and "domainRepScore m \<noteq> NaN"
  shows "calculateBehavioralScore (m\<lparr>requestCount := r1\<rparr>)
         \<le> calculateBehavioralScore (m\<lparr>requestCount := r2\<rparr>)"
proof -
  define T where "T = (\<lambda>r::jsnum. if r > Num 50 then 30 else if r > Num 20 then 20
                                   else if r > Num 10 then 10 else (0::real))"
  define X where "X = (if dataExfilSize m / Num (1024 * 1024) > Num 10 then 25
          else if dataExfilSize m / Num (1024 * 1024) > Num 5 then 18
          else if dataExfilSize m / Num (1024 * 1024) > Num 1 then 10 else (0::real))"
  define U where "U = (if num_above (uploadFrequency m) (Num 10) then 20
          else if num_above (uploadFrequency m) (Num 5) then 12 else (0::real))"
  have tiers: "behavioral_tiers (m\<lparr>requestCount := r\<rparr>) = 0 + T r + X + U" for r
    unfolding behavioral_tiers_def T_def X_def U_def
    by (simp split del: if_split cong: if_cong)
  have T: "T r1 \<le> T r2" unfolding T_def using assms(1) by (rule tier_mono)
  show ?thesis
  proof (cases "domainRepScore m")
    case NaN
    with assms(2) show ?thesis by simp
  next
    case NegInf
    then show ?thesis by (simp add: behavioral_value)
  next
    case (Num r)
    with T show ?thesis by (simp add: behavioral_value tiers)
  next
    case PosInf
    then show ?thesis by (simp add: behavioral_value)
  qed
qed

lemma mono_rep:
  assumes "d1 \<le> d2"
  shows "calculateBehavioralScore (m\<lparr>domainRepScore := d2\<rparr>)
         \<le> calculateBehavioralScore (m\<lparr>domainRepScore := d1\<rparr>)"
proof -
  have tiers: "behavioral_tiers (m\<lparr>domainRepScore := d\<rparr>) = behavioral_tiers m" for d
    unfolding behavioral_tiers_def by (simp split del: if_split cong: if_cong)
  from assms show ?thesis
    by (cases d1; cases d2) (auto simp: behavioral_value tiers min_le_iff_disj)
qed

text \<open>The loop of \<open>calculateConfidence\<close> sums the weights.\<close>

lemma forEach_check_sums:
  "forEach_check cs (d, a) =
     (d + sum_list (map (\<lambda>(p, w). weight_if p w) cs), a + sum_list (map snd cs))"
  by (induction cs arbitrary: d a) (auto simp: weight_if_def)

lemma forEach_checks:
  "forEach_check (checks m) (0, 0) = (present_weight m, total_weight)"
  unfolding forEach_check_sums checks_def present_weight_def total_weight_def
  by (simp split del: if_split add: weight_if_def[of True])

lemma calculateConfidence_spec: "calculateConfidence m = confidence_spec m"
  by (simp add: calculateConfidence_def forEach_checks confidence_spec_def)

section \<open>Properties of the aggregator\<close>

lemma check_patterns_first:
  "\<forall>p \<in> set pre. regex_search p u = None \<Longrightarrow> regex_search k u = Some (m0, m2) \<Longrightarrow>
   check_patterns (pre @ k # post) sev u h = [anomaly_entry sev u h m0 m2]"
  by (induction pre) simp_all

lemma track_upload_fresh:
  "0 < b \<Longrightarrow> track_upload h (Some b) [] = [(h, b)]"
  by (simp add: track_upload_def)

lemma track_upload_again:
  "0 < b \<Longrightarrow> track_upload h (Some b) [(h, a)] = [(h, a + b)]"
  by (simp add: track_upload_def)

text \<open>
  The enhanced scorer gives the flush of the TypeScript variant the same level: its
  input has no request, reputation 5 and no optional field, so only the size tier and the
  reputation term count, and the combined score is at most 15.
\<close>

lemma enhanced_scorer_low: "getRiskLevel (scorer_input bytes) = ''LOW''"
proof -
  define X where "X = (if Num bytes / Num (1024 * 1024) > Num 10 then 25
             else if Num bytes / Num (1024 * 1024) > Num 5 then 18
             else if Num bytes / Num (1024 * 1024) > Num 1 then 10 else (0::real))"
  have X: "0 \<le> X" "X \<le> 25" by (simp_all add: X_def)
  have tiers: "behavioral_tiers (scorer_input bytes) = X"
    unfolding behavioral_tiers_def X_def
    by (simp add: scorer_input_def num_above_def truthy_num_def
        split del: if_split cong: if_cong)
  have rep: "domainRepScore (scorer_input bytes) = Num 5"
    by (simp add: scorer_input_def)
  have b: "calculateBehavioralScore (scorer_input bytes) = Num (min (X + 12.5) 100)"
    by (simp add: behavioral_value rep tiers)
  have t: "temporal_points (scorer_input bytes) = 0"
    by (simp add: temporal_points_def scorer_input_def truthy_bool_def)
  have s: "structural_points (scorer_input bytes) = 0"
    by (simp add: structural_points_def scorer_input_def truthy_bool_def)
  have c: "combinedScore (analyzeContext (scorer_input bytes)) = Num (min ((X + 12.5) * 0.4) 100)"
    using X unfolding analyze_form b t s
    by (simp add: scorer_input_def truthy_bool_def num_above_def truthy_num_def)
  from X show ?thesis unfolding getRiskLevel_def Let_def c by simp
qed

section \<open>Properties of the analyzer\<close>

text \<open>Both traversals run the rules over the visited values, in order.\<close>

lemma run_js_append:
  "run_js sid (xs @ ys) st =
    (case run_js sid xs st of (Some e, st') \<Rightarrow> (Some e, st') | (None, st') \<Rightarrow> run_js sid ys st')"
  by (induction xs arbitrary: st) (auto split: prod.splits option.splits)

lemma traverse_js_run:
  "traverse_js sid v st = run_js sid (visited_js v) st"
  "children_js sid cs st = run_js sid (visited_children_js cs) st"
  "forEach_js sid xs st = run_js sid (visited_elements_js xs) st"
  by (induction sid v st and sid cs st and sid xs st rule: traverse_js_children_js_forEach_js.induct)
     (auto simp: run_js_append split: prod.splits option.splits)

lemma traverse_ts_fold:
  "traverse_ts sid v st = fold (visit_ts sid) (visited_ts v) st"
  "children_ts sid cs st = fold (visit_ts sid) (visited_children_ts cs) st"
  "forEach_ts sid xs st = fold (visit_ts sid) (visited_elements_ts xs) st"
  by (induction sid v st and sid cs st and sid xs st rule: traverse_ts_children_ts_forEach_ts.induct)
     auto

lemma syntax_nodes_visited_ts:
  "set (syntax_nodes v) \<subseteq> set (visited_ts v)"
  "set (child_nodes cs) \<subseteq> set (visited_children_ts cs)"
  "set (element_nodes xs) \<subseteq> set (visited_elements_ts xs)"
  by (induction v and cs and xs rule: syntax_nodes_child_nodes_element_nodes.induct) auto

lemma syntax_nodes_visited_js:
  "set (syntax_nodes v) \<subseteq> set (visited_js v)"
  "set (child_nodes cs) \<subseteq> set (visited_children_js cs)"
  "set (element_nodes xs) \<subseteq> set (visited_elements_js xs)"
  by (induction v and cs and xs rule: syntax_nodes_child_nodes_element_nodes.induct) auto


text \<open>The rules only add entries and only raise the flag.\<close>

lemma get_nullish [simp]: "nullish v \<Longrightarrow> get v k = JUndef"
  by (cases v) auto

lemma rule1_js_mono:
  "rule1_js sid n line st = (r, st') \<Longrightarrow> (fst st \<longrightarrow> fst st') \<and> set (snd st) \<subseteq> set (snd st')"
  by (auto simp: rule1_js_def flag_js_def Let_def split: if_splits)

lemma rule2_js_mono:
  "(fst st \<longrightarrow> fst (rule2_js sid n line st))
   \<and> set (snd st) \<subseteq> set (snd (rule2_js sid n line st))"
  by (auto simp: rule2_js_def flag_js_def Let_def split: if_splits)

lemma rule3_js_mono:
  "rule3_js sid n line st = (r, st') \<Longrightarrow> (fst st \<longrightarrow> fst st') \<and> set (snd st) \<subseteq> set (snd st')"
  by (auto simp: rule3_js_def flag_js_def Let_def split: if_splits)

lemma visit_js_mono:
  assumes "visit_js sid n st = (r, st')"
  shows "(fst st \<longrightarrow> fst st') \<and> set (snd st) \<subseteq> set (snd st')"
proof (cases "line_js n")
  case (Inl e)
  with assms show ?thesis by (simp add: visit_js_def)
next
  case (Inr line)
  obtain r1 st1 where r1: "rule1_js sid n line st = (r1, st1)"
    by (cases "rule1_js sid n line st")
  note m1 = rule1_js_mono[OF r1]
  show ?thesis
  proof (cases r1)
    case (Some e)
    with assms Inr r1 m1 show ?thesis by (simp add: visit_js_def)
  next
    case None
    from assms Inr r1 None
    have "rule3_js sid n line (rule2_js sid n line st1) = (r, st')"
      by (simp add: visit_js_def)
    from rule3_js_mono[OF this] m1 rule2_js_mono[of st1 sid n line]
    show ?thesis by blast
  qed
qed

lemma run_js_mono:
  "run_js sid ns st = (r, st') \<Longrightarrow> (fst st \<longrightarrow> fst st') \<and> set (snd st) \<subseteq> set (snd st')"
proof (induction ns arbitrary: st)
  case Nil
  then show ?case by simp
next
  case (Cons n ns)
  obtain r1 st1 where v: "visit_js sid n st = (r1, st1)"
    by (cases "visit_js sid n st")
  note m = visit_js_mono[OF v]
  show ?case
  proof (cases r1)
    case (Some e)
    with Cons.prems v m show ?thesis by simp
  next
    case None
    with Cons.prems v have "run_js sid ns st1 = (r, st')" by simp
    from Cons.IH[OF this] m show ?thesis by blast
  qed
qed

lemma visit_js_ok: "\<not> node_throws_js n \<Longrightarrow> fst (visit_js sid n st) = None"
  by (auto simp: node_throws_js_def visit_js_def line_js_def rule1_js_def rule3_js_def Let_def
           split: sum.splits prod.splits option.splits if_splits)

lemma run_js_ok: "list_all (\<lambda>n. \<not> node_throws_js n) ns \<Longrightarrow> fst (run_js sid ns st) = None"
proof (induction ns arbitrary: st)
  case Nil
  then show ?case by simp
next
  case (Cons n ns)
  then have "fst (visit_js sid n st) = None" by (simp add: visit_js_ok)
  then obtain st1 where "visit_js sid n st = (None, st1)" by (cases "visit_js sid n st") auto
  with Cons show ?case by simp
qed

lemma line_js_start:
  "start_line n = JNum l \<Longrightarrow> line_js n = Inr (JNum l)"
  by (cases "get n ''loc''"; cases "get (get n ''loc'') ''start''")
     (auto simp: start_line_def line_js_def Let_def)

lemma visit_js_hit:
  assumes "dangerous_call n f" and "start_line n = JNum l"
      and "visit_js sid n st = (None, st')"
  shows "fst st' \<and> logAnomaly_js sid (call_detail f) (JNum l) \<in> set (snd st')"
proof -
  from assms(1) have r1: "rule1_js sid n (JNum l) st
      = (None, flag_js sid (call_detail f) (JNum l) st)"
    by (cases "get n ''callee''")
       (auto simp: dangerous_call_def rule1_js_def call_detail_def Let_def)
  let ?st1 = "flag_js sid (call_detail f) (JNum l) st"
  have h: "fst ?st1 \<and> logAnomaly_js sid (call_detail f) (JNum l) \<in> set (snd ?st1)"
    by (simp add: flag_js_def)
  from assms(3) line_js_start[OF assms(2)] r1
  have "rule3_js sid n (JNum l) (rule2_js sid n (JNum l) ?st1) = (None, st')"
    by (simp add: visit_js_def)
  from rule3_js_mono[OF this] rule2_js_mono[of ?st1 sid n "JNum l"] h
  show ?thesis by blast
qed

lemma run_js_hit:
  assumes "dangerous_call n f" and "start_line n = JNum l"
  shows "n \<in> set ns \<Longrightarrow> run_js sid ns st = (None, st') \<Longrightarrow>
         fst st' \<and> logAnomaly_js sid (call_detail f) (JNum l) \<in> set (snd st')"
proof (induction ns arbitrary: st)
  case Nil
  then show ?case by simp
next
  case (Cons m ns)
  obtain r1 st1 where v: "visit_js sid m st = (r1, st1)"
    by (cases "visit_js sid m st")
  with Cons.prems(2) have r1: "r1 = None" and rest: "run_js sid ns st1 = (None, st')"
    by (auto split: option.splits)
  show ?case
  proof (cases "n = m")
    case True
    from visit_js_hit[OF assms] v r1 True
    have "fst st1 \<and> logAnomaly_js sid (call_detail f) (JNum l) \<in> set (snd st1)" by simp
    with run_js_mono[OF rest] show ?thesis by blast
  next
    case False
    with Cons.prems(1) have "n \<in> set ns" by simp
    from Cons.IH[OF this rest] show ?thesis .
  qed
qed


lemma rule1_ts_mono:
  "(fst st \<longrightarrow> fst (rule1_ts sid n line st))
   \<and> set (snd st) \<subseteq> set (snd (rule1_ts sid n line st))"
  by (auto simp: rule1_ts_def flag_ts_def Let_def)

lemma rule2_ts_mono:
  "(fst st \<longrightarrow> fst (rule2_ts sid n line st))
   \<and> set (snd st) \<subseteq> set (snd (rule2_ts sid n line st))"
  by (auto simp: rule2_ts_def flag_ts_def Let_def)

lemma rule3_ts_mono:
  "(fst st \<longrightarrow> fst (rule3_ts sid n line st))
   \<and> set (snd st) \<subseteq> set (snd (rule3_ts sid n line st))"
  by (auto simp: rule3_ts_def flag_ts_def Let_def)

lemma visit_ts_mono:
  "(fst st \<longrightarrow> fst (visit_ts sid n st))
   \<and> set (snd st) \<subseteq> set (snd (visit_ts sid n st))"
proof -
  let ?l = "line_ts n"
  let ?s1 = "rule1_ts sid n ?l st"
  let ?s2 = "rule2_ts sid n ?l ?s1"
  have "visit_ts sid n st = rule3_ts sid n ?l ?s2"
    by (simp add: visit_ts_def Let_def)
  with rule1_ts_mono[of st sid n ?l] rule2_ts_mono[of ?s1 sid n ?l]
       rule3_ts_mono[of ?s2 sid n ?l]
  show ?thesis by auto
qed

lemma fold_ts_mono:
  "(fst st \<longrightarrow> fst (fold (visit_ts sid) ns st))
   \<and> set (snd st) \<subseteq> set (snd (fold (visit_ts sid) ns st))"
proof (induction ns arbitrary: st)
  case Nil
  show ?case by simp
next
  case (Cons n ns)
  from visit_ts_mono[of st sid n] Cons.IH[of "visit_ts sid n st"]
  show ?case by auto
qed

lemma line_ts_start: "start_line n = JNum l \<Longrightarrow> line_ts n = JNum l"
  by (auto simp: start_line_def line_ts_def Let_def)

lemma visit_ts_hit:
  assumes "dangerous_call n f" and "start_line n = JNum l"
  shows "fst (visit_ts sid n st)
         \<and> logAnomaly_ts sid (call_detail f) (JNum l) \<in> set (snd (visit_ts sid n st))"
proof -
  let ?s1 = "flag_ts sid (call_detail f) (JNum l) st"
  from assms(1) have r1: "rule1_ts sid n (JNum l) st = ?s1"
    by (auto simp: dangerous_call_def rule1_ts_def call_detail_def Let_def)
  have h: "fst ?s1 \<and> logAnomaly_ts sid (call_detail f) (JNum l) \<in> set (snd ?s1)"
    by (simp add: flag_ts_def)
  let ?s2 = "rule2_ts sid n (JNum l) ?s1"
  have "visit_ts sid n st = rule3_ts sid n (JNum l) ?s2"
    by (simp add: visit_ts_def Let_def line_ts_start[OF assms(2)] r1)
  with h rule2_ts_mono[of ?s1 sid n "JNum l"] rule3_ts_mono[of ?s2 sid n "JNum l"]
  show ?thesis by auto
qed

lemma fold_ts_hit:
  assumes "dangerous_call n f" and "start_line n = JNum l"
  shows "n \<in> set ns \<Longrightarrow>
         fst (fold (visit_ts sid) ns st)
         \<and> logAnomaly_ts sid (call_detail f) (JNum l) \<in> set (snd (fold (visit_ts sid) ns st))"
proof (induction ns arbitrary: st)
  case Nil
  then show ?case by simp
next
  case (Cons m ns)
  show ?case
  proof (cases "n = m")
    case True
    from visit_ts_hit[OF assms, of sid st] fold_ts_mono[of "visit_ts sid m st" sid ns] True
    show ?thesis by auto
  next
    case False
    with Cons.prems have "n \<in> set ns" by simp
    from Cons.IH[OF this, of "visit_ts sid m st"] show ?thesis by simp
  qed
qed

section \<open>The claims\<close>

text \<open>
  C1. An absent optional field contributes nothing to the scores, the multipliers and
  the tags. The scorer does treat six of the seven optional fields so, but it tests
  \<open>!metrics.userInteractionOccurred\<close>, which holds when the field is absent. On a first
  visit with fifteen requests and the field absent, the temporal score is 30, the
  snapshot is tagged BACKGROUND_BEACON and the combined score carries the factor 1.25
  (16.25 instead of 13); with the field present and true the temporal score is 0, no tag
  is given and the combined score is 4.
\<close>

theorem absent_interaction_scored_as_no_interaction:
  "userInteractionOccurred first_visit_burst = None
   \<and> calculateTemporalScore first_visit_burst = Num 30
   \<and> threatVector (analyzeContext first_visit_burst) = [''BACKGROUND_BEACON'']
   \<and> combinedScore (analyzeContext first_visit_burst) = Num 16.25
   \<and> calculateTemporalScore (first_visit_burst\<lparr>userInteractionOccurred := Some True\<rparr>)
       = Num 0
   \<and> threatVector (analyzeContext (first_visit_burst\<lparr>userInteractionOccurred := Some True\<rparr>))
       = []
   \<and> combinedScore (analyzeContext (first_visit_burst\<lparr>userInteractionOccurred := Some True\<rparr>))
       = Num 4"
  by (simp add: first_visit_burst_def required_only_def calculateBehavioralScore_def
      calculateTemporalScore_def calculateStructuralScore_def identifyThreatVectors_def
      analyzeContext_def truthy_bool_def truthy_num_def num_above_def minus_jsnum_def Let_def)

text \<open>
  C2. When the parser returns a tree that contains a call node whose callee is an
  identifier \<open>f\<close> named in \<open>DANGEROUS_CALLS\<close>, at line \<open>l\<close>, both variants of
  \<open>scanScriptForAnomalies\<close> return \<open>true\<close> and hand \<open>saveLog\<close> an entry of type
  \<open>script_anomaly\<close> and severity high whose \<open>line_number\<close> is \<open>l\<close> and whose details
  are the variant's prefix followed by \<open>Function call to 'f'\<close>. The entry is written
  out field by field. The tree is one the parser can return: every node has its
  position, every call its callee, every assignment its left side.
\<close>

theorem dangerous_call_reported:
  assumes parse: "parseScript E scriptContent = Inr ast"
      and ok: "estree_ok ast"
      and node: "n \<in> set (syntax_nodes ast)"
      and call: "dangerous_call n f"
      and line: "start_line n = JNum l"
  shows "fst (scanScriptForAnomalies_js E scriptContent scriptId)
       \<and> JObj [(''type'', JStr ''script_anomaly''),
                (''detection_source'', JStr ''static_analysis''),
                (''severity'', JStr ''high''),
                (''script_id'', JStr scriptId),
                (''line_number'', JNum l),
                (''details'', JStr (''High-risk structural anomaly found: Function call to ''
                                    @ [CHR 0x27] @ f @ [CHR 0x27]))]
           \<in> set (snd (scanScriptForAnomalies_js E scriptContent scriptId))
       \<and> fst (scanScriptForAnomalies_ts E scriptContent scriptId)
       \<and> JObj [(''type'', JStr ''script_anomaly''),
                (''detection_source'', JStr ''static_analysis''),
                (''severity'', JStr ''high''),
                (''script_id'', JStr scriptId),
                (''line_number'', JNum l),
                (''details'', JStr (''High-risk function: Function call to ''
                                    @ [CHR 0x27] @ f @ [CHR 0x27]))]
           \<in> set (snd (scanScriptForAnomalies_ts E scriptContent scriptId))"
proof -
  from ok have "fst (run_js scriptId (visited_js ast) (False, [])) = None"
    unfolding estree_ok_def by (rule run_js_ok)
  then obtain st' where run: "run_js scriptId (visited_js ast) (False, []) = (None, st')"
    by (cases "run_js scriptId (visited_js ast) (False, [])") auto
  from node syntax_nodes_visited_js(1)[of ast] have "n \<in> set (visited_js ast)" by blast
  from run_js_hit[OF call line this run]
  have js: "fst st' \<and> logAnomaly_js scriptId (call_detail f) (JNum l) \<in> set (snd st')" .
  have scan_js: "scanScriptForAnomalies_js E scriptContent scriptId = st'"
    using parse run by (cases st') (simp add: scanScriptForAnomalies_js_def traverse_js_run(1))
  from node syntax_nodes_visited_ts(1)[of ast] have "n \<in> set (visited_ts ast)" by blast
  from fold_ts_hit[OF call line this, of scriptId "(False, [])"]
  have ts: "fst (traverse_ts scriptId ast (False, []))
            \<and> logAnomaly_ts scriptId (call_detail f) (JNum l)
                \<in> set (snd (traverse_ts scriptId ast (False, [])))"
    by (simp add: traverse_ts_fold(1))
  have scan_ts: "scanScriptForAnomalies_ts E scriptContent scriptId
                 = traverse_ts scriptId ast (False, [])"
    using parse by (simp add: scanScriptForAnomalies_ts_def)
  from js ts show ?thesis
    by (simp add: scan_js scan_ts logAnomaly_js_def logAnomaly_ts_def call_detail_def)
qed

theorem dangerous_call_reported_witness:
  "fst (scanScriptForAnomalies_js example_env example_script ''page'')
   \<and> JObj [(''type'', JStr ''script_anomaly''),
            (''detection_source'', JStr ''static_analysis''),
            (''severity'', JStr ''high''),
            (''script_id'', JStr ''page''),
            (''line_number'', JNum 2),
            (''details'', JStr (''High-risk structural anomaly found: Function call to ''
                                @ [CHR 0x27] @ ''eval'' @ [CHR 0x27]))]
       \<in> set (snd (scanScriptForAnomalies_js example_env example_script ''page''))
   \<and> fst (scanScriptForAnomalies_ts example_env example_script ''page'')
   \<and> JObj [(''type'', JStr ''script_anomaly''),
            (''detection_source'', JStr ''static_analysis''),
            (''severity'', JStr ''high''),
            (''script_id'', JStr ''page''),
            (''line_number'', JNum 2),
            (''details'', JStr (''High-risk function: Function call to ''
                                @ [CHR 0x27] @ ''eval'' @ [CHR 0x27]))]
       \<in> set (snd (scanScriptForAnomalies_ts example_env example_script ''page''))"
proof -
  have p: "parseScript example_env example_script = Inr example_ast"
    by (simp add: example_env_def)
  have ok: "estree_ok example_ast" by code_simp
  have node: "example_call \<in> set (syntax_nodes example_ast)" by code_simp
  have call: "dangerous_call example_call ''eval''" by code_simp
  have line: "start_line example_call = JNum 2" by code_simp
  from dangerous_call_reported[OF p ok node call line, of "''page''"]
  show ?thesis .
qed

text \<open>
  C3, as amended. For every metrics snapshot whose \<open>domainRepScore\<close> is not NaN, extreme
  values such as 10000 requests or an infinite field included, the combined score of
  \<open>analyzeContext\<close> is at most 100; it is at least 0 as well whenever \<open>domainRepScore\<close>
  is at most 10, the top of its documented scale. With \<open>domainRepScore\<close> NaN the
  combined score is NaN. The claim as stated asks for both bounds at every input; the
  scorer caps its scores from above only and does not guard against NaN.
\<close>

theorem combined_score_bounds:
  "(domainRepScore m \<noteq> NaN \<longrightarrow> combinedScore (analyzeContext m) \<le> Num 100)
   \<and> (domainRepScore m \<le> Num 10 \<longrightarrow>
        Num 0 \<le> combinedScore (analyzeContext m)
        \<and> combinedScore (analyzeContext m) \<le> Num 100)
   \<and> (domainRepScore m = NaN \<longrightarrow> combinedScore (analyzeContext m) = NaN)"
proof -
  have "domainRepScore m \<noteq> NaN" if "domainRepScore m \<le> Num 10"
    using that by (cases "domainRepScore m") simp_all
  with combined_upper combined_lower combined_NaN show ?thesis by blast
qed

theorem combined_score_bounds_witness:
  "domainRepScore (required_only (Num 10000) (Num 0) (Num 0) False) \<le> Num 10
   \<and> Num 0 \<le> combinedScore (analyzeContext (required_only (Num 10000) (Num 0) (Num 0) False))
   \<and> combinedScore (analyzeContext (required_only (Num 10000) (Num 0) (Num 0) False))
       \<le> Num 100"
  using combined_score_bounds[of "required_only (Num 10000) (Num 0) (Num 0) False"]
  by (simp add: required_only_def)

text \<open>
  C3 as stated fails twice. At 10000 requests and a reputation score of 100 the
  behavioural score is -195 and the combined score -69, below 0. At a reputation score
  of NaN the combined score is NaN, which is neither at least 0 nor at most 100.
\<close>

theorem combined_score_out_of_range:
  "\<not> (Num 0 \<le> combinedScore (analyzeContext
                    (required_only (Num 10000) (Num 100) (Num 0) False))
      \<and> combinedScore (analyzeContext (required_only (Num 10000) (Num 100) (Num 0) False))
          \<le> Num 100)
   \<and> combinedScore (analyzeContext (required_only (Num 10000) (Num 100) (Num 0) False))
       = Num (- 69)
   \<and> \<not> (Num 0 \<le> combinedScore (analyzeContext
                      (required_only (Num 10000) NaN (Num 0) False))
        \<and> combinedScore (analyzeContext (required_only (Num 10000) NaN (Num 0) False))
            \<le> Num 100)
   \<and> combinedScore (analyzeContext (required_only (Num 10000) NaN (Num 0) False)) = NaN"
  by (simp add: required_only_def calculateBehavioralScore_def calculateTemporalScore_def
      calculateStructuralScore_def analyzeContext_def truthy_bool_def truthy_num_def
      num_above_def minus_jsnum_def Let_def)

text \<open>
  C4. The confidence of the returned context is the weighted fraction of the fields that
  are present, with the weights of the specification and 1.0 for each of the four
  required fields (\<open>requestCount\<close>, \<open>domainRepScore\<close>, \<open>dataExfilSize\<close>,
  \<open>obfuscationDetected\<close>), as a rounded percentage of the total weight.
\<close>

theorem confidence_weighted_fraction:
  "calculateConfidence m = confidence_spec m
   \<and> confidence (analyzeContext m) = confidence_spec m"
  by (simp add: analyzeContext_def Let_def calculateConfidence_spec)

text \<open>
  C5. When the parser rejects the source text, both variants of
  \<open>scanScriptForAnomalies\<close> hand \<open>saveLog\<close> exactly one entry, of type
  \<open>script_analysis_error\<close> and severity medium, whose details end in the parser's
  message, and return \<open>false\<close>.
\<close>

theorem parse_failure_reported:
  assumes "parseScript E scriptContent = Inl message"
  shows "scanScriptForAnomalies_js E scriptContent scriptId
           = (False, [parse_error_js scriptId message])
       \<and> scanScriptForAnomalies_ts E scriptContent scriptId
           = (False, [parse_error_ts scriptId message])
       \<and> get (parse_error_js scriptId message) ''type'' = JStr ''script_analysis_error''
       \<and> get (parse_error_js scriptId message) ''severity'' = JStr ''medium''
       \<and> get (parse_error_js scriptId message) ''details''
           = JStr (''Script parsing failed: '' @ message)
       \<and> get (parse_error_ts scriptId message) ''type'' = JStr ''script_analysis_error''
       \<and> get (parse_error_ts scriptId message) ''severity'' = JStr ''medium''
       \<and> get (parse_error_ts scriptId message) ''details''
           = JStr (''Failed to parse: '' @ message)"
  using assms
  by (simp add: scanScriptForAnomalies_js_def scanScriptForAnomalies_ts_def
      parse_error_js_def parse_error_ts_def)

theorem parse_failure_reported_witness:
  "scanScriptForAnomalies_js example_env ''eval('' ''page''
     = (False, [parse_error_js ''page'' ''Line 1: Unexpected token''])
   \<and> scanScriptForAnomalies_ts example_env ''eval('' ''page''
     = (False, [parse_error_ts ''page'' ''Line 1: Unexpected token''])"
proof -
  have p: "parseScript example_env ''eval('' = Inl ''Line 1: Unexpected token''"
    by (simp add: example_env_def example_script_def)
  from parse_failure_reported[OF p, of "''page''"] show ?thesis by simp
qed

text \<open>
  C6. The flush on an empty window changes nothing and emits nothing. From an empty
  window, after a request to host A carrying 1000 bytes and one carrying 2000 bytes, the
  flush emits exactly one \<open>network_statistic_upload\<close> entry, for host A with
  \<open>bytes_uploaded\<close> 3000, and leaves the window empty. This holds for the JavaScript
  variant (severity by threshold) and the TypeScript variant (severity by the scorer).
\<close>

theorem tick_flushes_window:
  assumes "\<not> startsWith (url d1) ''chrome-extension://''"
      and "\<not> startsWith (url d2) ''chrome-extension://''"
      and "url_hostname P (url d1) = Some hostA"
      and "url_hostname P (url d2) = Some hostA"
      and "uploadedBytes P d1 = Some 1000"
      and "uploadedBytes P d2 = Some 2000"
  shows "logAndResetUploadBytes_js P [] = ([], [])
       \<and> logAndResetUploadBytes_ts riskLevel P [] = ([], [])
       \<and> logAndResetUploadBytes_js P
            (fst (snd (listener_js P d2 (fst (snd (listener_js P d1 []))))))
           = ([], [statistic_entry P ''info'' hostA 3000])
       \<and> logAndResetUploadBytes_ts riskLevel P
            (fst (snd (listener_ts P d2 (fst (snd (listener_ts P d1 []))))))
           = ([], [statistic_entry P (riskLevel (scorer_input 3000)) hostA 3000])
       \<and> get (statistic_entry P ''info'' hostA 3000) ''host'' = JStr hostA
       \<and> get (statistic_entry P ''info'' hostA 3000) ''bytes_uploaded'' = JNum 3000"
proof -
  have w_js: "fst (snd (listener_js P d2 (fst (snd (listener_js P d1 []))))) = [(hostA, 3000)]"
    using assms by (simp add: listener_js_def track_upload_fresh track_upload_again)
  have w_ts: "fst (snd (listener_ts P d2 (fst (snd (listener_ts P d1 []))))) = [(hostA, 3000)]"
    using assms by (simp add: listener_ts_def track_upload_fresh track_upload_again)
  show ?thesis
    unfolding w_js w_ts
    by (simp add: logAndResetUploadBytes_js_def logAndResetUploadBytes_ts_def
        statistic_entry_def)
qed

theorem tick_flushes_window_witness:
  "logAndResetUploadBytes_js example_platform
     (fst (snd (listener_js example_platform
        (upload_request ''https://x.example/upload'' ''2000'')
        (fst (snd (listener_js example_platform
               (upload_request ''https://x.example/upload'' ''1000'') []))))))
   = ([], [statistic_entry example_platform ''info'' ''x.example'' 3000])
   \<and> get (statistic_entry example_platform ''info'' ''x.example'' 3000) ''bytes_uploaded''
       = JNum 3000"
proof -
  have a: "\<not> startsWith (url (upload_request ''https://x.example/upload'' len))
               ''chrome-extension://''" for len
    by (simp add: startsWith_def upload_request_def)
  have b: "url_hostname example_platform (url (upload_request ''https://x.example/upload'' len))
           = Some ''x.example''" for len
    by (simp add: example_platform_def)
  have c: "uploadedBytes example_platform (upload_request ''https://x.example/upload'' ''1000'')
           = Some 1000"
    by code_simp
  have d: "uploadedBytes example_platform (upload_request ''https://x.example/upload'' ''2000'')
           = Some 2000"
    by code_simp
  from tick_flushes_window[OF a a b b c d] show ?thesis by simp
qed

text \<open>
  C7, as amended. For an observed request that passes both guards of the listener (its
  URL does not start with \<open>chrome-extension://\<close> and the URL parser accepts it) and
  whose URL matches one of the ordered tag patterns, the listener itself, not the flush,
  emits exactly one \<open>network_anomaly\<close> entry of severity high, for the first pattern of
  the list that matches, and its \<open>rewritten_value\<close> is the second group of that match.
  The claim as stated asks this of every observed request.
\<close>

theorem affiliate_tag_reported:
  assumes "\<not> startsWith (url d) ''chrome-extension://''"
      and "url_hostname P (url d) = Some h"
      and "AFFILIATE_PATTERNS = pre @ k # post"
      and "\<forall>p \<in> set pre. regex_search p (url d) = None"
      and "regex_search k (url d) = Some (m0, m2)"
  shows "snd (snd (listener_js P d w)) = [anomaly_entry ''high'' (url d) h m0 m2]
       \<and> snd (snd (listener_ts P d w)) = [anomaly_entry ''HIGH'' (url d) h m0 m2]
       \<and> get (anomaly_entry ''high'' (url d) h m0 m2) ''type'' = JStr ''network_anomaly''
       \<and> get (anomaly_entry ''high'' (url d) h m0 m2) ''severity'' = JStr ''high''
       \<and> get (anomaly_entry ''high'' (url d) h m0 m2) ''rewritten_value'' = JStr m2
       \<and> get (anomaly_entry ''HIGH'' (url d) h m0 m2) ''rewritten_value'' = JStr m2"
  using assms check_patterns_first[OF assms(4,5), of post]
  by (simp add: listener_js_def listener_ts_def anomaly_entry_def)

theorem affiliate_tag_reported_witness:
  "snd (snd (listener_js example_platform
       \<lparr>url = ''https://x.example/?tag=abc123'', requestHeaders = []\<rparr> []))
   = [anomaly_entry ''high'' ''https://x.example/?tag=abc123'' ''x.example''
        ''?tag=abc123'' ''abc123'']
   \<and> get (anomaly_entry ''high'' ''https://x.example/?tag=abc123'' ''x.example''
            ''?tag=abc123'' ''abc123'') ''rewritten_value'' = JStr ''abc123''"
proof -
  let ?d = "\<lparr>url = ''https://x.example/?tag=abc123'', requestHeaders = []\<rparr>"
  have a: "\<not> startsWith (url ?d) ''chrome-extension://''"
    by (simp add: startsWith_def)
  have b: "url_hostname example_platform (url ?d) = Some ''x.example''"
    by (simp add: example_platform_def)
  have c: "AFFILIATE_PATTERNS = [''affiliate_id''] @ ''tag'' # [''partner_ref'', ''ref'']"
    by (simp add: AFFILIATE_PATTERNS_def)
  have d: "\<forall>p \<in> set [''affiliate_id'']. regex_search p (url ?d) = None"
    by code_simp
  have e: "regex_search ''tag'' (url ?d) = Some (''?tag=abc123'', ''abc123'')"
    by code_simp
  from affiliate_tag_reported[OF a b c d e, of "[]"] show ?thesis by simp
qed

text \<open>
  C7 as stated fails for an extension-internal request: its URL matches the \<open>tag\<close>
  pattern and neither variant of the listener emits anything.
\<close>

theorem extension_request_not_reported:
  "regex_search ''tag'' ''chrome-extension://abcdefgh/popup.html?tag=abc123''
     = Some (''?tag=abc123'', ''abc123'')
   \<and> snd (snd (listener_js example_platform
         \<lparr>url = ''chrome-extension://abcdefgh/popup.html?tag=abc123'',
          requestHeaders = []\<rparr> [])) = []
   \<and> snd (snd (listener_ts example_platform
         \<lparr>url = ''chrome-extension://abcdefgh/popup.html?tag=abc123'',
          requestHeaders = []\<rparr> [])) = []"
  by code_simp

text \<open>
  C8. Under the simplified scorer, 15 requests with reputation 3 and no obfuscation
  give base 15 * 2 + 3 * 10 = 60, multiplier 1, final 60 and level HIGH; with
  obfuscation the final score is 120 and the level CRITICAL.
\<close>

theorem simplified_scenario:
  "baseScore scenario_metrics = Num (15 * 2 + 3 * 10)
   \<and> baseScore scenario_metrics = Num 60
   \<and> obfuscationMultiplier scenario_metrics = Num 1
   \<and> finalScore scenario_metrics = Num 60
   \<and> getRiskLevel_simple scenario_metrics = ''HIGH''
   \<and> finalScore (scenario_metrics\<lparr>obfuscationDetected := True\<rparr>) = Num 120
   \<and> getRiskLevel_simple (scenario_metrics\<lparr>obfuscationDetected := True\<rparr>) = ''CRITICAL''"
  by (simp add: scenario_metrics_def baseScore_def obfuscationMultiplier_def finalScore_def
      getRiskLevel_simple_def)

text \<open>
  C9, as amended. Between two snapshots that differ only in \<open>requestCount\<close> and whose
  \<open>domainRepScore\<close> is not NaN, the larger count has the larger or equal behavioural
  score; between two that differ only in \<open>domainRepScore\<close>, the larger reputation has
  the smaller or equal behavioural score. The comparisons are those of the language, so
  two values that compare are not NaN. The claim as stated asks the first part at every
  reputation score.
\<close>

theorem behavioral_monotone:
  "(r1 \<le> r2 \<and> domainRepScore m \<noteq> NaN \<longrightarrow>
      calculateBehavioralScore (m\<lparr>requestCount := r1\<rparr>)
      \<le> calculateBehavioralScore (m\<lparr>requestCount := r2\<rparr>))
   \<and> (d1 \<le> d2 \<longrightarrow> calculateBehavioralScore (m\<lparr>domainRepScore := d2\<rparr>)
                    \<le> calculateBehavioralScore (m\<lparr>domainRepScore := d1\<rparr>))"
  using mono_rc mono_rep by blast

theorem behavioral_monotone_witness:
  "Num 12 \<le> Num 60
   \<and> domainRepScore (required_only (Num 0) (Num 5) (Num 0) False) \<noteq> NaN
   \<and> calculateBehavioralScore
        ((required_only (Num 0) (Num 5) (Num 0) False)\<lparr>requestCount := Num 12\<rparr>)
      \<le> calculateBehavioralScore
          ((required_only (Num 0) (Num 5) (Num 0) False)\<lparr>requestCount := Num 60\<rparr>)
   \<and> Num 2 \<le> Num 8
   \<and> calculateBehavioralScore
        ((required_only (Num 0) (Num 5) (Num 0) False)\<lparr>domainRepScore := Num 8\<rparr>)
      \<le> calculateBehavioralScore
          ((required_only (Num 0) (Num 5) (Num 0) False)\<lparr>domainRepScore := Num 2\<rparr>)"
  using behavioral_monotone[of "Num 12" "Num 60" "required_only (Num 0) (Num 5) (Num 0) False"
      "Num 2" "Num 8"]
  by (simp add: required_only_def)

text \<open>
  C9 as stated fails when the reputation score is NaN: two snapshots with 12 and 60
  requests both score NaN, and NaN is not greater than or equal to NaN.
\<close>

theorem behavioral_not_monotone_at_NaN:
  "Num 12 \<le> Num 60
   \<and> \<not> (calculateBehavioralScore
            ((required_only (Num 0) NaN (Num 0) False)\<lparr>requestCount := Num 12\<rparr>)
          \<le> calculateBehavioralScore
              ((required_only (Num 0) NaN (Num 0) False)\<lparr>requestCount := Num 60\<rparr>))
   \<and> calculateBehavioralScore
        ((required_only (Num 0) NaN (Num 0) False)\<lparr>requestCount := Num 12\<rparr>) = NaN
   \<and> calculateBehavioralScore
        ((required_only (Num 0) NaN (Num 0) False)\<lparr>requestCount := Num 60\<rparr>) = NaN"
  by (simp add: required_only_def calculateBehavioralScore_def truthy_num_def num_above_def
      minus_jsnum_def Let_def)

text \<open>
  C10. In the TypeScript variant of the flush, with the simplified \<open>getRiskLevel\<close>
  imported, every emitted \<open>network_statistic_upload\<close> entry has severity LOW whatever the
  byte count: the metrics passed are 0 requests, reputation 5 and no obfuscation, the
  simplified formula does not read \<open>dataExfilSize\<close>, and the final score is exactly 50,
  which is not above 50.
\<close>

theorem scored_tick_always_low:
  "finalScore (scorer_input bytes) = Num 50
   \<and> getRiskLevel_simple (scorer_input bytes) = ''LOW''
   \<and> (\<forall>e \<in> set (snd (logAndResetUploadBytes_ts getRiskLevel_simple P w)).
         get e ''type'' = JStr ''network_statistic_upload''
         \<and> get e ''severity'' = JStr ''LOW'')"
proof -
  have f: "finalScore (scorer_input b) = Num 50" for b
    by (simp add: finalScore_def baseScore_def obfuscationMultiplier_def scorer_input_def)
  have r: "getRiskLevel_simple (scorer_input b) = ''LOW''" for b
    by (simp add: getRiskLevel_simple_def f)
  show ?thesis
    by (auto simp: f r logAndResetUploadBytes_ts_def statistic_entry_def)
qed

theorem scored_tick_always_low_witness:
  "snd (logAndResetUploadBytes_ts getRiskLevel_simple example_platform
          [(''x.example'', 1000000000)])
     = [statistic_entry example_platform ''LOW'' ''x.example'' 1000000000]
   \<and> get (statistic_entry example_platform ''LOW'' ''x.example'' 1000000000) ''severity''
       = JStr ''LOW''"
proof -
  have l: "snd (logAndResetUploadBytes_ts getRiskLevel_simple example_platform
                 [(''x.example'', 1000000000)])
           = [statistic_entry example_platform
                (getRiskLevel_simple (scorer_input 1000000000)) ''x.example'' 1000000000]"
    by (simp add: logAndResetUploadBytes_ts_def)
  from scored_tick_always_low[of 1000000000 example_platform "[(''x.example'', 1000000000)]"]
  show ?thesis unfolding l by (simp add: statistic_entry_def)
qed

end
